theory Spec2Isabelle
  imports Main "HOL-Library.AList"
begin

section \<open>JavaScript strings and values\<close>

text \<open>
  Page text and URLs are modelled as \<open>string\<close> (character lists). A property that may be
  \<open>undefined\<close> is an \<open>option\<close>; \<open>None\<close> is \<open>undefined\<close>. A string is truthy when it is
  defined and not empty.
\<close>

fun truthy :: "string option \<Rightarrow> bool" where
  "truthy None = False"
| "truthy (Some s) = (s \<noteq> [])"

fun truthyB :: "bool option \<Rightarrow> bool" where
  "truthyB None = False"
| "truthyB (Some b) = b"

text \<open>\<open>s.startsWith(p)\<close>\<close>

definition startsWith :: "string \<Rightarrow> string \<Rightarrow> bool" where
  "startsWith s p = (take (length p) s = p)"

text \<open>\<open>s.split(' ')\<close>: every single space separates; the result is never empty.\<close>

fun split :: "string \<Rightarrow> string list" where
  "split [] = [[]]"
| "split (c # cs) =
     (if c = CHR '' '' then [] # split cs
      else (case split cs of [] \<Rightarrow> [[c]] | w # ws \<Rightarrow> (c # w) # ws))"

text \<open>\<open>s.replace(',', ' ')\<close> with a string pattern: only the first occurrence is replaced.\<close>

fun replace :: "string \<Rightarrow> string" where
  "replace [] = []"
| "replace (c # cs) = (if c = CHR '','' then CHR '' '' # cs else c # replace cs)"

text \<open>A non-negative count rendered in decimal, as string concatenation does.\<close>

fun decimal :: "nat \<Rightarrow> string" where
  "decimal n =
     (if n < 10 then [''0123456789'' ! n]
      else decimal (n div 10) @ [''0123456789'' ! (n mod 10)])"

declare decimal.simps [simp del]

section \<open>Data model\<close>

text \<open>
  What the analyzer calls and does not define is a parameter of the model: \<open>URLParse\<close>
  (package url-parse), \<open>dirname\<close> (\<open>Path.dirname\<close>), \<open>parseDate\<close>, the millisecond value
  of \<open>new Date(s)\<close>, \<open>None\<close> when it is \<open>NaN\<close>, and the string methods \<open>toLowerCase\<close> and
  \<open>trim\<close>, which follow the Unicode tables of the runtime.
\<close>

record URLParts =
  url_protocol :: string
  url_hostname :: string
  url_pathname :: string

record lib =
  URLParse :: "string \<Rightarrow> URLParts"
  dirname :: "string \<Rightarrow> string"
  parseDate :: "string \<Rightarrow> int option"
  toLowerCase :: "string \<Rightarrow> string"
  trim :: "string \<Rightarrow> string"

record configuration =
  protocol :: string
  host :: string
  startPage :: string
  subPathOnly :: bool
  saveToCSV :: string
  showReport :: bool
  debug :: bool
  basePath :: string

text \<open>One entry of the combined list built by \<open>sortWordsByFrequency\<close>: \<open>{term, frequency}\<close>.\<close>

record wordFrequency =
  wterm :: string
  frequency :: int

text \<open>
  The \<open>DocumentTermMatrix\<close> of the one-document corpus: \<open>vocabulary\<close> and the row
  \<open>data[0]\<close>, which the library builds with one count for each vocabulary entry.
\<close>

record terms =
  vocabulary :: "string list"
  data0 :: "int list"

text \<open>
  The \<open>pageDetails\<close> object. Every property is optional, since the page processor also
  starts from the empty object \<open>{}\<close>.
\<close>

record pageDetails =
  statusCode :: "int option"
  queueTime :: "int option"
  referrer :: "string option"
  analyze :: "bool option"
  pageScore :: "int option"
  title :: "string option"
  description :: "string option"
  keywords' :: "string option"
  headerOne :: "string option"
  lastModified :: "string option"
  product :: "string option"
  version :: "string option"
  completeTime :: "int option"
  terms :: "terms option"
  pageAnalysis :: "string option"
  wordFrequencyList :: "wordFrequency list option"

datatype error = TypeError

section \<open>Scoring\<close>

definition specialWordFilter :: "string list" where
  "specialWordFilter =
     ['':'', ''='', ''=='', ''{'', ''}'', ''|'', '';'', ''('', '')'', ''++'', ''//'', ''://'',
      ''**'', ''***'', ''()'']"

text \<open>\<open>Array.prototype.sort\<close> is stable; the comparator orders by descending frequency.\<close>

definition sortWordsByFrequency :: "string list \<Rightarrow> int list \<Rightarrow> wordFrequency list" where
  "sortWordsByFrequency wordList frequencyList =
     sort_key (\<lambda>w. - frequency w)
       (map (\<lambda>(t, f). \<lparr>wterm = t, frequency = f\<rparr>)
          (filter (\<lambda>(t, f). t \<notin> set specialWordFilter) (zip wordList frequencyList)))"

text \<open>
  The inner loop of a boost block, for one boost word: every entry whose term equals
  \<open>word\<close> gains \<open>inc\<close> in frequency, and the score gains \<open>pts\<close> when the entry's frequency
  was above 1 before. The pair is \<open>(pageScore, boostedWordCount)\<close>.
\<close>

fun boostTerms ::
  "string \<Rightarrow> int \<Rightarrow> int \<Rightarrow> wordFrequency list \<Rightarrow> int \<times> nat \<Rightarrow> (int \<times> nat) \<times> wordFrequency list"
where
  "boostTerms word pts inc [] acc = (acc, [])"
| "boostTerms word pts inc (crawledWord # rest) (ps, bc) =
     (if word = wterm crawledWord then
        (let acc' = (if frequency crawledWord > 1 then (ps + pts, bc + 1) else (ps, bc));
             (r, rest') = boostTerms word pts inc rest acc'
         in (r, crawledWord\<lparr>frequency := frequency crawledWord + inc\<rparr> # rest'))
      else
        (let (r, rest') = boostTerms word pts inc rest (ps, bc)
         in (r, crawledWord # rest')))"

text \<open>The state of a boost block: score, boosted word count, H1 words seen, term list.\<close>

record boost =
  b_pageScore :: int
  b_boostedWordCount :: nat
  b_headerWords :: nat
  b_wordFrequencyList :: "wordFrequency list"

text \<open>
  One iteration of the outer loop, for the boost word \<open>w\<close>. \<open>key\<close> is what is applied to
  the lower-cased word before it is compared with a term (nothing for title and
  description, \<open>trim\<close> for keywords); \<open>headerOneWords\<close> is \<open>None\<close> for \<open>null\<close>.
\<close>

definition boostWord ::
  "lib \<Rightarrow> (string \<Rightarrow> string) \<Rightarrow> int \<Rightarrow> int \<Rightarrow> string list option \<Rightarrow> string \<Rightarrow> boost
     \<Rightarrow> boost"
where
  "boostWord L key pts inc headerOneWords w b =
     (let word = toLowerCase L w;
          ((ps, bc), wfl) =
             boostTerms (key word) pts inc (b_wordFrequencyList b)
               (b_pageScore b, b_boostedWordCount b)
      in \<lparr>b_pageScore = ps, b_boostedWordCount = bc,
          b_headerWords =
            (case headerOneWords of
               None \<Rightarrow> b_headerWords b
             | Some hs \<Rightarrow> b_headerWords b + (if word \<in> set hs then 1 else 0)),
          b_wordFrequencyList = wfl\<rparr>)"

definition boostWords ::
  "lib \<Rightarrow> (string \<Rightarrow> string) \<Rightarrow> int \<Rightarrow> int \<Rightarrow> string list option \<Rightarrow> string list \<Rightarrow> boost
     \<Rightarrow> boost"
where
  "boostWords L key pts inc headerOneWords ws b =
     foldl (\<lambda>b w. boostWord L key pts inc headerOneWords w b) b ws"

text \<open>The local variables of \<open>scorePage\<close> that outlive a block.\<close>

record locals =
  l_wordFrequencyList :: "wordFrequency list"
  l_pageScore :: int
  l_pageAnalysis :: string
  l_headerWordsInTitle :: nat
  l_headerWordsInDescription :: nat
  l_headerWordsInKeywords :: nat

definition titleBoost :: "lib \<Rightarrow> pageDetails \<Rightarrow> string list option \<Rightarrow> locals \<Rightarrow> locals" where
  "titleBoost L pd headerOneWords l =
     (if truthy (title pd) then
        (let b = boostWords L (\<lambda>w. w) 2 2 headerOneWords (split (the (title pd)))
                   \<lparr>b_pageScore = l_pageScore l, b_boostedWordCount = 0,
                    b_headerWords = l_headerWordsInTitle l,
                    b_wordFrequencyList = l_wordFrequencyList l\<rparr>
         in l\<lparr>l_wordFrequencyList := b_wordFrequencyList b,
              l_pageScore := b_pageScore b,
              l_headerWordsInTitle := b_headerWords b,
              l_pageAnalysis := l_pageAnalysis l @
                (if b_boostedWordCount b > 0
                 then ''good: '' @ decimal (b_boostedWordCount b) @ '' title words appear in body.''
                 else ''bad: no title words appear in body.'')\<rparr>)
      else l\<lparr>l_pageAnalysis := l_pageAnalysis l @ ''; very bad: no title.''\<rparr>)"

definition descriptionBoost :: "lib \<Rightarrow> pageDetails \<Rightarrow> string list option \<Rightarrow> locals \<Rightarrow> locals" where
  "descriptionBoost L pd headerOneWords l =
     (if truthy (description pd) then
        (let b = boostWords L (\<lambda>w. w) 2 2 headerOneWords (split (the (description pd)))
                   \<lparr>b_pageScore = l_pageScore l, b_boostedWordCount = 0,
                    b_headerWords = l_headerWordsInDescription l,
                    b_wordFrequencyList = l_wordFrequencyList l\<rparr>
         in l\<lparr>l_wordFrequencyList := b_wordFrequencyList b,
              l_pageScore := b_pageScore b,
              l_headerWordsInDescription := b_headerWords b,
              l_pageAnalysis := l_pageAnalysis l @
                (if b_boostedWordCount b > 0
                 then ''; good: '' @ decimal (b_boostedWordCount b) @
                      '' description words appear in body.''
                 else ''; bad: no description words appear in body.'')\<rparr>)
      else l\<lparr>l_pageAnalysis := l_pageAnalysis l @ ''; very bad: no description.''\<rparr>)"

text \<open>The keyword list: the first comma becomes a space, then the string is split on spaces.\<close>

definition keywordWords :: "string \<Rightarrow> string list" where
  "keywordWords k = split (replace k)"

definition keywordBoost :: "lib \<Rightarrow> pageDetails \<Rightarrow> string list option \<Rightarrow> locals \<Rightarrow> locals" where
  "keywordBoost L pd headerOneWords l =
     (if truthy (keywords' pd) then
        (let b = boostWords L (trim L) 1 1 headerOneWords (keywordWords (the (keywords' pd)))
                   \<lparr>b_pageScore = l_pageScore l, b_boostedWordCount = 0,
                    b_headerWords = l_headerWordsInKeywords l,
                    b_wordFrequencyList = l_wordFrequencyList l\<rparr>
         in l\<lparr>l_wordFrequencyList := b_wordFrequencyList b,
              l_pageScore := b_pageScore b,
              l_headerWordsInKeywords := b_headerWords b,
              l_pageAnalysis := l_pageAnalysis l @
                (if b_boostedWordCount b > 0
                 then ''; good: '' @ decimal (b_boostedWordCount b) @ '' keywords appear in body.''
                 else ''; bad: no keywords appear in body.'')\<rparr>)
      else l\<lparr>l_pageAnalysis := l_pageAnalysis l @ ''; very bad: no keywords.''\<rparr>)"

text \<open>
  Freshness. \<open>now\<close> is \<open>new Date().valueOf()\<close>. When the date does not parse the age is
  \<open>NaN\<close>, the comparison is false and the page counts as recent.
\<close>

definition oneYear :: int where
  "oneYear = 365 * 24 * 60 * 60 * 1000"

definition freshness :: "lib \<Rightarrow> int \<Rightarrow> pageDetails \<Rightarrow> locals \<Rightarrow> locals" where
  "freshness L now pd l =
     (if truthy (lastModified pd) then
        (if (case parseDate L (the (lastModified pd)) of
               None \<Rightarrow> False
             | Some t \<Rightarrow> now - t > oneYear)
         then l\<lparr>l_pageScore := l_pageScore l - 1,
                l_pageAnalysis := l_pageAnalysis l @ ''; bad: page over 1 year old.''\<rparr>
         else l\<lparr>l_pageScore := l_pageScore l + 1,
                l_pageAnalysis := l_pageAnalysis l @ ''; good: page is recent.''\<rparr>)
      else l\<lparr>l_pageScore := l_pageScore l - 2,
             l_pageAnalysis := l_pageAnalysis l @ ''; bad: page missing last-modified.''\<rparr>)"

definition productVersion :: "pageDetails \<Rightarrow> locals \<Rightarrow> locals" where
  "productVersion pd l =
     (if truthy (product pd) then
        (if \<not> truthy (version pd)
         then l\<lparr>l_pageScore := l_pageScore l - 1,
                l_pageAnalysis := l_pageAnalysis l @ ''; bad: page has product but missing version.''\<rparr>
         else l\<lparr>l_pageScore := l_pageScore l + 1,
                l_pageAnalysis := l_pageAnalysis l @ ''; good: page has product and version.''\<rparr>)
      else l)"

definition headerOneTest :: "pageDetails \<Rightarrow> locals \<Rightarrow> locals" where
  "headerOneTest pd l =
     (if truthy (headerOne pd) then
        l\<lparr>l_pageScore := l_pageScore l +
             (1 + int (l_headerWordsInTitle l) + int (l_headerWordsInDescription l) +
              int (l_headerWordsInKeywords l)),
          l_pageAnalysis := l_pageAnalysis l @ ''; good: page has H1, '' @
             decimal (l_headerWordsInTitle l) @ '' in title, '' @
             decimal (l_headerWordsInDescription l) @ '' in description, '' @
             decimal (l_headerWordsInKeywords l) @ '' in keywords''\<rparr>
      else l\<lparr>l_pageScore := l_pageScore l - 1,
             l_pageAnalysis := l_pageAnalysis l @ ''; bad: page missing H1.''\<rparr>)"

text \<open>
  \<open>scorePage\<close>. Reading \<open>pageDetails.terms.vocabulary\<close> when \<open>terms\<close> is \<open>undefined\<close> throws
  a \<open>TypeError\<close> before anything is changed.
\<close>

definition scorePage :: "lib \<Rightarrow> int \<Rightarrow> pageDetails \<Rightarrow> error + pageDetails" where
  "scorePage L now pd =
     (if truthyB (analyze pd) then
        (case terms pd of
           None \<Rightarrow> Inl TypeError
         | Some t \<Rightarrow>
             (let headerOneWords =
                    (if truthy (headerOne pd) then Some (split (the (headerOne pd))) else None);
                  l0 = \<lparr>l_wordFrequencyList = sortWordsByFrequency (vocabulary t) (data0 t),
                        l_pageScore = 0, l_pageAnalysis = [],
                        l_headerWordsInTitle = 0, l_headerWordsInDescription = 0,
                        l_headerWordsInKeywords = 0\<rparr>;
                  l1 = titleBoost L pd headerOneWords l0;
                  l2 = descriptionBoost L pd headerOneWords l1;
                  l3 = keywordBoost L pd headerOneWords l2;
                  l4 = freshness L now pd l3;
                  l5 = productVersion pd l4;
                  l6 = headerOneTest pd l5
              in Inr (pd\<lparr>pageScore := Some (l_pageScore l6),
                         pageAnalysis := Some (l_pageAnalysis l6),
                         wordFrequencyList := Some (l_wordFrequencyList l6),
                         terms := None\<rparr>)))
      else Inr pd)"

section \<open>The record map and the frontier\<close>

text \<open>
  \<open>pagesVisited\<close> is a JavaScript object used as a dictionary from URL to \<open>pageDetails\<close>:
  an association list with distinct keys, in insertion order, which is the order a
  \<open>for ... in\<close> loop visits URL keys. \<open>pagesVisited[k] = v\<close> is \<open>AList.update k v\<close>: it
  replaces the value of an existing key in place and appends a new key.
  \<open>queued\<close> lists the URLs handed to \<open>crawler.queue\<close>.
\<close>

type_synonym pagesVisited = "(string \<times> pageDetails) list"

record crawlState =
  pagesVisited :: pagesVisited
  queued :: "string list"

text \<open>
  Reading a key that names a property of \<open>Object.prototype\<close> yields the inherited
  property, which is not \<open>undefined\<close>, although the object has no such record.
\<close>

definition objectPrototypeNames :: "string list" where
  "objectPrototypeNames =
     [''constructor'', ''__defineGetter__'', ''__defineSetter__'', ''hasOwnProperty'',
      ''__lookupGetter__'', ''__lookupSetter__'', ''isPrototypeOf'', ''propertyIsEnumerable'',
      ''toString'', ''valueOf'', ''__proto__'', ''toLocaleString'']"

text \<open>\<open>pagesVisited[k] == undefined\<close>\<close>

definition isUndefined :: "pagesVisited \<Rightarrow> string \<Rightarrow> bool" where
  "isUndefined pv k = (map_of pv k = None \<and> k \<notin> set objectPrototypeNames)"

text \<open>The object literal of \<open>queueURLToCrawl\<close>, and the empty object \<open>{}\<close>.\<close>

definition emptyObject :: pageDetails where
  "emptyObject =
     \<lparr>statusCode = None, queueTime = None, referrer = None, analyze = None, pageScore = None,
      title = None, description = None, keywords' = None, headerOne = None,
      lastModified = None, product = None, version = None, completeTime = None,
      terms = None, pageAnalysis = None, wordFrequencyList = None\<rparr>"

definition newPageDetails :: "int \<Rightarrow> string \<Rightarrow> bool \<Rightarrow> pageDetails" where
  "newPageDetails now ref an =
     \<lparr>statusCode = Some (- 1), queueTime = Some now, referrer = Some ref, analyze = Some an,
      pageScore = Some 0, title = Some [], description = Some [], keywords' = Some [],
      headerOne = Some [], lastModified = Some [], product = Some [], version = Some [],
      completeTime = None, terms = None, pageAnalysis = None, wordFrequencyList = None\<rparr>"

text \<open>
  \<open>queueURLToCrawl\<close>; \<open>now\<close> is the reading of \<open>Date.now()\<close>. The URL that keys the record
  is the argument, after the configured protocol is put before a leading \<open>//\<close>.
\<close>

definition queueKey :: "configuration \<Rightarrow> string \<Rightarrow> string" where
  "queueKey cfg URL = (if take 2 URL = ''//'' then protocol cfg @ URL else URL)"

definition queueURLToCrawl ::
  "configuration \<Rightarrow> int \<Rightarrow> string \<Rightarrow> string \<Rightarrow> bool \<Rightarrow> crawlState \<Rightarrow> bool \<times> crawlState"
where
  "queueURLToCrawl cfg now URL ref an st =
     (let URL' = queueKey cfg URL in
      if isUndefined (pagesVisited st) URL' then
        (True, st\<lparr>pagesVisited := AList.update URL' (newPageDetails now ref an) (pagesVisited st),
                  queued := queued st @ [URL']\<rparr>)
      else (False, st))"

section \<open>The URL resolver\<close>

definition isIndexPage :: "lib \<Rightarrow> string \<Rightarrow> bool" where
  "isIndexPage L URL =
     (let p = url_pathname (URLParse L URL) in
      length p = 0 \<or> p = ''/'' \<or>
      p \<in> set [''index.html'', ''index.php'', ''index.jsp'',
                ''/index.html'', ''/index.php'', ''/index.jsp''])"

definition makeURL :: "configuration \<Rightarrow> string \<Rightarrow> string" where
  "makeURL cfg pathFromRoot = protocol cfg @ ''//'' @ host cfg @ pathFromRoot"

definition isIntendedSubPath :: "lib \<Rightarrow> configuration \<Rightarrow> URLParts \<Rightarrow> bool" where
  "isIntendedSubPath L cfg parts =
     (if length (url_hostname parts) = 0 \<or> toLowerCase L (url_hostname parts) = host cfg then
        (if subPathOnly cfg then
           (if startsWith (url_pathname parts) (basePath cfg) then True else False)
         else True)
      else False)"

text \<open>
  \<open>cleanURL\<close>. The href is \<open>None\<close> when it is \<open>undefined\<close> or \<open>null\<close>; the result is \<open>None\<close>
  for \<open>null\<close>. The probe-only enqueues are the change of state.
\<close>

definition cleanURL ::
  "lib \<Rightarrow> configuration \<Rightarrow> int \<Rightarrow> string option \<Rightarrow> string \<Rightarrow> string \<Rightarrow> crawlState
     \<Rightarrow> string option \<times> crawlState"
where
  "cleanURL L cfg now href currentURL ref st =
     (case href of
        None \<Rightarrow> (None, st)
      | Some p0 \<Rightarrow>
          if length p0 > 0 \<and> take 1 p0 \<noteq> ''#'' \<and> take 1 p0 \<noteq> ''?'' then
            (let proposedURL = (if take 2 p0 = ''//'' then protocol cfg @ p0 else p0);
                 parts = URLParse L proposedURL
             in
               if isIntendedSubPath L cfg parts then
                 (let realURL =
                        (if take 1 (url_pathname parts) \<noteq> ''/''
                         then makeURL cfg (dirname L currentURL @ ''/'' @ url_pathname parts)
                         else makeURL cfg (url_pathname parts))
                  in
                    if \<not> isUndefined (pagesVisited st) proposedURL then (None, st)
                    else if subPathOnly cfg then
                      (if \<not> startsWith (url_pathname parts) (basePath cfg) \<and>
                          isUndefined (pagesVisited st) realURL
                       then (None, snd (queueURLToCrawl cfg now realURL ref False st))
                       else (Some realURL, st))
                    else (Some realURL, st))
               else
                 (let parts1 =
                        (if url_protocol parts = [] then parts\<lparr>url_protocol := protocol cfg\<rparr>
                         else parts);
                      parts2 =
                        (if url_hostname parts1 = [] then parts1\<lparr>url_hostname := host cfg\<rparr>
                         else parts1);
                      proposedURL' =
                        (if isIndexPage L proposedURL
                         then url_protocol parts2 @ ''//'' @ url_hostname parts2 @ ''/''
                         else url_protocol parts2 @ ''//'' @ url_hostname parts2 @
                              url_pathname parts2)
                  in
                    if isUndefined (pagesVisited st) proposedURL'
                    then (None, snd (queueURLToCrawl cfg now proposedURL' ref False st))
                    else (None, st)))
          else (None, st))"

section \<open>The completion pass\<close>

text \<open>
  \<open>adjustTermScores\<close>: the loop over the records. A record with status \<open>-1\<close> is deleted;
  another one with \<open>analyze\<close> set and a score of 0 is scored again. When \<open>scorePage\<close>
  throws, the loop stops there: the records already visited keep their changes and the
  rest of the map is as it was.
\<close>

fun adjustTermScores :: "lib \<Rightarrow> int \<Rightarrow> pagesVisited \<Rightarrow> error option \<times> pagesVisited" where
  "adjustTermScores L now [] = (None, [])"
| "adjustTermScores L now ((URL, pageDetails) # rest) =
     (if statusCode pageDetails = Some (- 1) then adjustTermScores L now rest
      else if truthyB (analyze pageDetails) \<and> pageScore pageDetails = Some 0 then
        (case scorePage L now pageDetails of
           Inl e \<Rightarrow> (Some e, (URL, pageDetails) # rest)
         | Inr pageDetails' \<Rightarrow>
             (let (e, rest') = adjustTermScores L now rest
              in (e, (URL, pageDetails') # rest')))
      else
        (let (e, rest') = adjustTermScores L now rest
         in (e, (URL, pageDetails) # rest')))"

section \<open>The page processor\<close>

text \<open>
  What the fetch service and the document libraries deliver for one page: the texts that
  the selectors return, the \<open>href\<close> attribute of every anchor in the body, and the
  \<open>DocumentTermMatrix\<close> that TextMiner computes from the page text.
\<close>

record document =
  doc_title :: string
  doc_description :: "string option"
  doc_keywords :: "string option"
  doc_lastModified :: "string option"
  doc_product :: "string option"
  doc_h1 :: string
  doc_anchors :: "string option list"
  doc_terms :: terms

record response =
  uri_href :: string
  res_statusCode :: int
  dollar :: "document option"

definition extractMetadata :: "lib \<Rightarrow> document \<Rightarrow> pageDetails \<Rightarrow> pageDetails" where
  "extractMetadata L doc pd =
     pd\<lparr>title := Some (doc_title doc),
        description := doc_description doc,
        keywords' := doc_keywords doc,
        lastModified := doc_lastModified doc,
        product := doc_product doc,
        headerOne := Some (toLowerCase L (doc_h1 doc))\<rparr>"

text \<open>The body of the loop over the anchors.\<close>

definition followAnchor ::
  "lib \<Rightarrow> configuration \<Rightarrow> int \<Rightarrow> string \<Rightarrow> string \<Rightarrow> crawlState \<Rightarrow> string option \<Rightarrow> crawlState"
where
  "followAnchor L cfg now currentPath proposedURL st a =
     (case cleanURL L cfg now a currentPath proposedURL st of
        (None, st') \<Rightarrow> st'
      | (Some href, st') \<Rightarrow> snd (queueURLToCrawl cfg now href proposedURL True st'))"

text \<open>
  The part of \<open>analyzePage\<close> that handles a response. The object \<open>pageDetails\<close> is the one
  stored in the map when the URL has a record, so its changes are visible in the map at
  once; the link loop only tests which keys exist, and the record is written back under
  its key at the end. \<open>scorePage\<close> cannot throw here, since \<open>terms\<close> has just been set.
\<close>

definition handleResponse ::
  "lib \<Rightarrow> configuration \<Rightarrow> int \<Rightarrow> response \<Rightarrow> crawlState \<Rightarrow> error option \<times> crawlState"
where
  "handleResponse L cfg now res st =
     (let proposedURL = uri_href res;
          parts = URLParse L proposedURL;
          found = map_of (pagesVisited st) proposedURL
      in
        if isUndefined (pagesVisited st) proposedURL \<or>
           (case found of
              Some pd \<Rightarrow> (case statusCode pd of Some c \<Rightarrow> c < 0 | None \<Rightarrow> False)
            | None \<Rightarrow> False)
        then
          (let pd0 = (case found of Some pd \<Rightarrow> pd | None \<Rightarrow> emptyObject);
               pd1 = pd0\<lparr>statusCode := Some (res_statusCode res)\<rparr>
           in
             if res_statusCode res < 300 \<and> truthyB (analyze pd1) then
               (case dollar res of
                  Some doc \<Rightarrow>
                    (let pd2 = extractMetadata L doc pd1;
                         st1 = foldl (followAnchor L cfg now (url_pathname parts) proposedURL)
                                 st (doc_anchors doc);
                         pd3 = pd2\<lparr>terms := Some (doc_terms doc)\<rparr>
                     in
                       case scorePage L now pd3 of
                         Inl e \<Rightarrow>
                           (Some e,
                            st1\<lparr>pagesVisited := AList.update proposedURL pd3 (pagesVisited st1)\<rparr>)
                       | Inr pd4 \<Rightarrow>
                           (None,
                            st1\<lparr>pagesVisited :=
                                  AList.update proposedURL (pd4\<lparr>completeTime := Some now\<rparr>)
                                    (pagesVisited st1)\<rparr>))
                | None \<Rightarrow>
                    (None,
                     st\<lparr>pagesVisited :=
                          AList.update proposedURL
                            (pd1\<lparr>analyze := Some False, completeTime := Some now\<rparr>)
                            (pagesVisited st)\<rparr>))
             else
               (None,
                st\<lparr>pagesVisited :=
                     AList.update proposedURL
                       (pd1\<lparr>analyze := Some False, completeTime := Some now\<rparr>)
                       (pagesVisited st)\<rparr>))
        else (None, st))"

text \<open>
  \<open>analyzePage\<close>. The result of the fetch is \<open>None\<close> when \<open>error\<close> is set. \<open>queueSize\<close> is
  what \<open>pageCrawler.queueSize\<close> reads after \<open>done()\<close>. The CSV file and the report are
  written from the map the completion pass leaves, and only when the pass returns.
  Every reading of the clock during one call is the one value \<open>now\<close>.
\<close>

definition analyzePage ::
  "lib \<Rightarrow> configuration \<Rightarrow> int \<Rightarrow> response option \<Rightarrow> nat \<Rightarrow> crawlState
     \<Rightarrow> error option \<times> crawlState"
where
  "analyzePage L cfg now result queueSize st =
     (case (case result of None \<Rightarrow> (None, st) | Some res \<Rightarrow> handleResponse L cfg now res st) of
        (Some e, st1) \<Rightarrow> (Some e, st1)
      | (None, st1) \<Rightarrow>
          if queueSize = 0 then
            (let (e, pv) = adjustTermScores L now (pagesVisited st1)
             in (e, st1\<lparr>pagesVisited := pv\<rparr>))
          else (None, st1))"

text \<open>\<open>startCrawler\<close>: the base path is fixed, then the start page is queued for analysis.\<close>

definition startConfiguration :: "lib \<Rightarrow> configuration \<Rightarrow> configuration" where
  "startConfiguration L cfg =
     (if subPathOnly cfg then cfg\<lparr>basePath := dirname L (startPage cfg)\<rparr> else cfg)"

definition startCrawler :: "lib \<Rightarrow> configuration \<Rightarrow> int \<Rightarrow> crawlState" where
  "startCrawler L cfg now =
     (let cfg' = startConfiguration L cfg;
          basePage = makeURL cfg' (startPage cfg')
      in snd (queueURLToCrawl cfg' now basePage basePage True
                \<lparr>pagesVisited = [], queued = []\<rparr>))"

text \<open>The states of a crawl run: the start state, and every state a fetch completion leaves.\<close>

inductive reachable :: "lib \<Rightarrow> configuration \<Rightarrow> crawlState \<Rightarrow> bool" for L cfg where
  start: "reachable L cfg (startCrawler L cfg now)"
| completion:
    "reachable L cfg st \<Longrightarrow>
     reachable L cfg (snd (analyzePage L (startConfiguration L cfg) now result queueSize st))"

section \<open>Sample inputs\<close>

text \<open>
  The values the libraries return for the URLs, paths and dates of the examples below:
  url-parse splits an absolute URL into protocol, host and path and leaves a relative
  one as a path; \<open>Path.dirname\<close> drops the last path segment; the dates are milliseconds
  since 1970. The texts of the examples are ASCII, where \<open>toLowerCase\<close> folds the letters
  A to Z and \<open>trim\<close> removes space, tab, line feed, vertical tab, form feed and carriage
  return at both ends.
\<close>

definition lowerChar :: "char \<Rightarrow> char" where
  "lowerChar c =
     (case map_of (zip ''ABCDEFGHIJKLMNOPQRSTUVWXYZ'' ''abcdefghijklmnopqrstuvwxyz'') c of
        Some d \<Rightarrow> d
      | None \<Rightarrow> c)"

definition sampleToLowerCase :: "string \<Rightarrow> string" where
  "sampleToLowerCase s = map lowerChar s"

definition isSpace :: "char \<Rightarrow> bool" where
  "isSpace c = (c \<in> set [CHR '' '', CHR 0x09, CHR 0x0A, CHR 0x0B, CHR 0x0C, CHR 0x0D])"

definition sampleTrim :: "string \<Rightarrow> string" where
  "sampleTrim s = rev (dropWhile isSpace (rev (dropWhile isSpace s)))"

definition sampleURLParse :: "string \<Rightarrow> URLParts" where
  "sampleURLParse u =
     (if u = ''https://host/'' then
        \<lparr>url_protocol = ''https:'', url_hostname = ''host'', url_pathname = ''/''\<rparr>
      else if u = ''https://host/index.html'' then
        \<lparr>url_protocol = ''https:'', url_hostname = ''host'', url_pathname = ''/index.html''\<rparr>
      else if u = ''https://host/docs/index.html'' then
        \<lparr>url_protocol = ''https:'', url_hostname = ''host'', url_pathname = ''/docs/index.html''\<rparr>
      else if u = ''https://host/docs/'' then
        \<lparr>url_protocol = ''https:'', url_hostname = ''host'', url_pathname = ''/docs/''\<rparr>
      else if u = ''https://host/docs/page2.html'' then
        \<lparr>url_protocol = ''https:'', url_hostname = ''host'', url_pathname = ''/docs/page2.html''\<rparr>
      else \<lparr>url_protocol = [], url_hostname = [], url_pathname = u\<rparr>)"

definition sampleDirname :: "string \<Rightarrow> string" where
  "sampleDirname p =
     (if p = ''/docs/index.html'' then ''/docs''
      else if p = ''/docs/page2.html'' then ''/docs''
      else ''/'')"

definition sampleParseDate :: "string \<Rightarrow> int option" where
  "sampleParseDate s =
     (if s = ''2026-11-01'' then Some 1793491200000
      else if s = ''2025-11-03'' then Some 1762128000000
      else if s = ''2025-11-02'' then Some 1762041600000
      else None)"

definition sampleLib :: lib where
  "sampleLib =
     \<lparr>URLParse = sampleURLParse, dirname = sampleDirname, parseDate = sampleParseDate,
      toLowerCase = sampleToLowerCase, trim = sampleTrim\<rparr>"

text \<open>The reading of the clock in the examples: 3 November 2026, 00:00 UTC.\<close>

definition sampleNow :: int where
  "sampleNow = 1793664000000"

text \<open>A crawl of \<open>https://host\<close> under \<open>/docs\<close>, and one from the root of the site.\<close>

definition docsConfiguration :: configuration where
  "docsConfiguration =
     \<lparr>protocol = ''https:'', host = ''host'', startPage = ''/docs/index.html'',
      subPathOnly = True, saveToCSV = [], showReport = True, debug = False, basePath = []\<rparr>"

definition rootConfiguration :: configuration where
  "rootConfiguration =
     \<lparr>protocol = ''https:'', host = ''host'', startPage = ''/index.html'',
      subPathOnly = True, saveToCSV = [], showReport = True, debug = False, basePath = []\<rparr>"

text \<open>An analysed page with the title \<open>Docs\<close> whose only term, \<open>docs\<close>, was counted once.\<close>

definition titleOncePage :: pageDetails where
  "titleOncePage =
     (newPageDetails 0 ''https://host/docs/index.html'' True)
       \<lparr>statusCode := Some 200, title := Some ''Docs'',
        terms := Some \<lparr>vocabulary = [''docs''], data0 = [1]\<rparr>\<rparr>"

text \<open>An analysed page with three comma-separated keywords; \<open>crawl\<close> was counted twice.\<close>

definition keywordsPage :: pageDetails where
  "keywordsPage =
     (newPageDetails 0 ''https://host/docs/index.html'' True)
       \<lparr>statusCode := Some 200, keywords' := Some ''seo,crawl,page'',
        terms := Some \<lparr>vocabulary = [''crawl''], data0 = [2]\<rparr>\<rparr>"

text \<open>
  An analysed page whose title is \<open>SEO\<close>, a tab and \<open>docs\<close>; \<open>docs\<close> was counted twice.
\<close>

definition tabTitlePage :: pageDetails where
  "tabTitlePage =
     (newPageDetails 0 ''https://host/docs/index.html'' True)
       \<lparr>statusCode := Some 200, title := Some (''SEO'' @ [CHR 0x09] @ ''docs''),
        terms := Some \<lparr>vocabulary = [''docs''], data0 = [2]\<rparr>\<rparr>"

text \<open>
  An analysed page titled \<open>Docs Home docs\<close>; \<open>home\<close> was counted twice, \<open>docs\<close> once.
\<close>

definition titledPage :: pageDetails where
  "titledPage =
     (newPageDetails 0 ''https://host/docs/index.html'' True)
       \<lparr>statusCode := Some 200, title := Some ''Docs Home docs'',
        terms := Some \<lparr>vocabulary = [''docs'', ''home''], data0 = [1, 2]\<rparr>\<rparr>"

text \<open>An analysed page with no metadata and no terms.\<close>

definition plainPage :: pageDetails where
  "plainPage =
     (newPageDetails 0 ''https://host/docs/index.html'' True)
       \<lparr>statusCode := Some 200, terms := Some \<lparr>vocabulary = [], data0 = []\<rparr>\<rparr>"

text \<open>
  The start page of the crawl under \<open>/docs\<close> links to \<open>page2.html\<close>; both have a record.
\<close>

definition docsState :: crawlState where
  "docsState =
     snd (queueURLToCrawl (startConfiguration sampleLib docsConfiguration) 0
            ''https://host/docs/page2.html'' ''https://host/docs/index.html'' True
            (startCrawler sampleLib docsConfiguration 0))"

text \<open>
  A page without title, description, keywords, product and H1, last modified two days
  before \<open>sampleNow\<close>, with no links and no terms; the same page with a product meta tag
  whose content is empty, and with one that names the product \<open>Suite\<close>.
\<close>

definition plainDocument :: document where
  "plainDocument =
     \<lparr>doc_title = [], doc_description = None, doc_keywords = None,
      doc_lastModified = Some ''2026-11-01'', doc_product = None, doc_h1 = [],
      doc_anchors = [], doc_terms = \<lparr>vocabulary = [], data0 = []\<rparr>\<rparr>"

definition emptyProductDocument :: document where
  "emptyProductDocument = plainDocument\<lparr>doc_product := Some []\<rparr>"

definition productDocument :: document where
  "productDocument = plainDocument\<lparr>doc_product := Some ''Suite''\<rparr>"

text \<open>The plain page with one link, to \<open>/docs/page2.html\<close>.\<close>

definition linkingDocument :: document where
  "linkingDocument = plainDocument\<lparr>doc_anchors := [Some ''/docs/page2.html'']\<rparr>"

text \<open>
  The answer to the fetch of the start page, and an answer that reports another URL
  than the one queued (the request was redirected to \<open>/docs/\<close>).
\<close>

definition startPageResponse :: "document \<Rightarrow> response" where
  "startPageResponse doc =
     \<lparr>uri_href = ''https://host/docs/index.html'', res_statusCode = 200, dollar = Some doc\<rparr>"

definition redirectedResponse :: response where
  "redirectedResponse =
     \<lparr>uri_href = ''https://host/docs/'', res_statusCode = 200, dollar = Some plainDocument\<rparr>"

lemmas sample_defs =
  sampleLib_def sampleURLParse_def sampleDirname_def sampleParseDate_def sampleNow_def
  sampleToLowerCase_def lowerChar_def sampleTrim_def isSpace_def docsConfiguration_def

lemmas scoring_defs =
  scorePage_def sortWordsByFrequency_def specialWordFilter_def titleBoost_def
  descriptionBoost_def keywordBoost_def keywordWords_def freshness_def oneYear_def
  productVersion_def headerOneTest_def boostWords_def boostWord_def

lemmas crawler_defs =
  isUndefined_def objectPrototypeNames_def emptyObject_def newPageDetails_def queueKey_def
  queueURLToCrawl_def isIndexPage_def makeURL_def isIntendedSubPath_def startsWith_def
  cleanURL_def extractMetadata_def followAnchor_def handleResponse_def analyzePage_def
  startConfiguration_def startCrawler_def

section \<open>Properties of the scoring engine\<close>

subsection \<open>The inner loop of a boost block\<close>

lemma boostTerms_list:
  "snd (boostTerms word pts inc wfl acc) =
     map (\<lambda>e. if word = wterm e then e\<lparr>frequency := frequency e + inc\<rparr> else e) wfl"
proof (induction wfl arbitrary: acc)
  case Nil
  show ?case by simp
next
  case (Cons a wfl)
  obtain ps bc where acc: "acc = (ps, bc)" by (cases acc)
  show ?case unfolding acc using Cons.IH by (auto simp add: split_beta Let_def)
qed

lemma boostTerms_score:
  "fst (fst (boostTerms word pts inc wfl (ps, bc))) =
     ps + pts * int (length (filter (\<lambda>e. word = wterm e \<and> frequency e > 1) wfl))"
  by (induction wfl arbitrary: ps bc) (auto simp add: split_beta Let_def algebra_simps)

lemma boostTerms_count:
  "snd (fst (boostTerms word pts inc wfl (ps, bc))) =
     bc + length (filter (\<lambda>e. word = wterm e \<and> frequency e > 1) wfl)"
  by (induction wfl arbitrary: ps bc) (auto simp add: split_beta Let_def)

text \<open>
  The vocabulary of a document holds each term once, so the term list that
  \<open>sortWordsByFrequency\<close> builds from it has no term twice; a boost changes frequencies
  only and keeps the terms and their order.
\<close>

lemma distinct_map_sort_key:
  "distinct (map g (sort_key f xs)) = distinct (map g xs)"
  by (simp add: distinct_map)

lemma sortWordsByFrequency_distinct:
  assumes "distinct wordList"
  shows "distinct (map wterm (sortWordsByFrequency wordList frequencyList))"
proof -
  let ?kept = "filter (\<lambda>(t, f). t \<notin> set specialWordFilter) (zip wordList frequencyList)"
  let ?combined = "map (\<lambda>(t, f). \<lparr>wterm = t, frequency = f\<rparr>) ?kept"
  have eq: "map wterm ?combined = map fst ?kept"
    by (simp add: split_beta comp_def)
  have "distinct (map fst (zip wordList frequencyList))"
    using assms by (simp add: map_fst_zip_take)
  then have k: "distinct (map fst ?kept)"
    by (rule distinct_map_filter)
  have d: "distinct (map wterm ?combined)"
    unfolding eq by (rule k)
  show ?thesis
    unfolding sortWordsByFrequency_def distinct_map_sort_key by (rule d)
qed

lemma boostWord_terms:
  "map wterm (b_wordFrequencyList (boostWord L key pts inc h1 w b)) =
     map wterm (b_wordFrequencyList b)"
  by (simp add: boostWord_def Let_def split_beta boostTerms_list comp_def)

lemma distinct_match_count:
  assumes "distinct (map wterm wfl)"
  shows "length (filter (\<lambda>e. k = wterm e \<and> P e) wfl) =
           (if \<exists>e \<in> set wfl. wterm e = k \<and> P e then 1 else 0)"
  using assms
proof (induction wfl)
  case Nil
  then show ?case by simp
next
  case (Cons a wfl)
  from Cons.prems have d: "distinct (map wterm wfl)" and a: "wterm a \<notin> wterm ` set wfl"
    by simp_all
  show ?case
  proof (cases "k = wterm a")
    case True
    with a have "\<forall>e \<in> set wfl. wterm e \<noteq> k" by (metis imageI)
    then have "filter (\<lambda>e. k = wterm e \<and> P e) wfl = []"
      by (auto simp: filter_empty_conv)
    with True \<open>\<forall>e \<in> set wfl. wterm e \<noteq> k\<close> show ?thesis by auto
  next
    case False
    with Cons.IH[OF d] show ?thesis by auto
  qed
qed

text \<open>
  One title word, and then all of them: what the title loop does to the score and to the
  term list, when the list has no term twice.
\<close>

lemma boostWord_title_step:
  assumes "distinct (map wterm (b_wordFrequencyList b))"
  shows "b_pageScore (boostWord L (\<lambda>w. w) 2 2 h1 w b) =
           b_pageScore b +
           (if \<exists>e \<in> set (b_wordFrequencyList b). wterm e = toLowerCase L w \<and> 1 < frequency e
            then 2 else 0)"
    and "b_wordFrequencyList (boostWord L (\<lambda>w. w) 2 2 h1 w b) =
           map (\<lambda>e. if wterm e = toLowerCase L w then e\<lparr>frequency := frequency e + 2\<rparr> else e)
             (b_wordFrequencyList b)"
proof -
  let ?r = "boostTerms (toLowerCase L w) 2 2 (b_wordFrequencyList b)
              (b_pageScore b, b_boostedWordCount b)"
  have "b_pageScore (boostWord L (\<lambda>w. w) 2 2 h1 w b) = fst (fst ?r)"
    by (simp add: boostWord_def Let_def split_beta)
  then show "b_pageScore (boostWord L (\<lambda>w. w) 2 2 h1 w b) =
           b_pageScore b +
           (if \<exists>e \<in> set (b_wordFrequencyList b). wterm e = toLowerCase L w \<and> 1 < frequency e
            then 2 else 0)"
    by (simp add: boostTerms_score distinct_match_count[OF assms])
  have "b_wordFrequencyList (boostWord L (\<lambda>w. w) 2 2 h1 w b) = snd ?r"
    by (simp add: boostWord_def Let_def split_beta)
  also have "\<dots> = map (\<lambda>e. if toLowerCase L w = wterm e
                               then e\<lparr>frequency := frequency e + 2\<rparr> else e)
                      (b_wordFrequencyList b)"
    by (rule boostTerms_list)
  also have "\<dots> = map (\<lambda>e. if wterm e = toLowerCase L w
                               then e\<lparr>frequency := frequency e + 2\<rparr> else e)
                      (b_wordFrequencyList b)"
    by (rule map_cong) auto
  finally show "b_wordFrequencyList (boostWord L (\<lambda>w. w) 2 2 h1 w b) =
           map (\<lambda>e. if wterm e = toLowerCase L w then e\<lparr>frequency := frequency e + 2\<rparr> else e)
             (b_wordFrequencyList b)" .
qed

lemma boostWords_title_fold:
  assumes "distinct (map wterm (b_wordFrequencyList b))"
  shows "(b_pageScore (boostWords L (\<lambda>w. w) 2 2 h1 ws b),
          b_wordFrequencyList (boostWords L (\<lambda>w. w) 2 2 h1 ws b)) =
         foldl (\<lambda>(score, wfl) w.
                  (score + (if \<exists>e \<in> set wfl. wterm e = toLowerCase L w \<and> 1 < frequency e
                            then 2 else 0),
                   map (\<lambda>e. if wterm e = toLowerCase L w
                             then e\<lparr>frequency := frequency e + 2\<rparr> else e) wfl))
           (b_pageScore b, b_wordFrequencyList b) ws"
  using assms
proof (induction ws arbitrary: b)
  case Nil
  then show ?case by (simp add: boostWords_def)
next
  case (Cons w ws)
  let ?b = "boostWord L (\<lambda>w. w) 2 2 h1 w b"
  have d: "distinct (map wterm (b_wordFrequencyList ?b))"
    using Cons.prems by (simp add: boostWord_terms)
  have unfold: "boostWords L (\<lambda>w. w) 2 2 h1 (w # ws) b = boostWords L (\<lambda>w. w) 2 2 h1 ws ?b"
    by (simp add: boostWords_def)
  show ?case
    unfolding unfold Cons.IH[OF d]
    by (simp add: boostWord_title_step[OF Cons.prems])
qed

lemma boostWord_title_count:
  "b_pageScore (boostWord L (\<lambda>w. w) 2 2 h1 w b) =
     b_pageScore b +
     2 * int (length (filter (\<lambda>e. wterm e = toLowerCase L w \<and> 1 < frequency e)
                        (b_wordFrequencyList b)))"
proof -
  have "b_pageScore (boostWord L (\<lambda>w. w) 2 2 h1 w b) =
          fst (fst (boostTerms (toLowerCase L w) 2 2 (b_wordFrequencyList b)
                      (b_pageScore b, b_boostedWordCount b)))"
    by (simp add: boostWord_def Let_def split_beta)
  moreover have "filter (\<lambda>e. toLowerCase L w = wterm e \<and> 1 < frequency e) (b_wordFrequencyList b) =
                 filter (\<lambda>e. wterm e = toLowerCase L w \<and> 1 < frequency e) (b_wordFrequencyList b)"
    by (rule filter_cong) auto
  ultimately show ?thesis by (simp add: boostTerms_score)
qed

lemma boostWords_title_count_fold:
  "(b_pageScore (boostWords L (\<lambda>w. w) 2 2 h1 ws b),
    b_wordFrequencyList (boostWords L (\<lambda>w. w) 2 2 h1 ws b)) =
   foldl (\<lambda>(score, wfl) w.
            (score + 2 * int (length (filter (\<lambda>e. wterm e = toLowerCase L w \<and> 1 < frequency e)
                                        wfl)),
             map (\<lambda>e. if wterm e = toLowerCase L w
                       then e\<lparr>frequency := frequency e + 2\<rparr> else e) wfl))
     (b_pageScore b, b_wordFrequencyList b) ws"
proof (induction ws arbitrary: b)
  case Nil
  then show ?case by (simp add: boostWords_def)
next
  case (Cons w ws)
  let ?b = "boostWord L (\<lambda>w. w) 2 2 h1 w b"
  have unfold: "boostWords L (\<lambda>w. w) 2 2 h1 (w # ws) b = boostWords L (\<lambda>w. w) 2 2 h1 ws ?b"
    by (simp add: boostWords_def)
  have list: "b_wordFrequencyList ?b =
           map (\<lambda>e. if wterm e = toLowerCase L w then e\<lparr>frequency := frequency e + 2\<rparr> else e)
             (b_wordFrequencyList b)"
  proof -
    have "b_wordFrequencyList ?b =
            snd (boostTerms (toLowerCase L w) 2 2 (b_wordFrequencyList b)
                   (b_pageScore b, b_boostedWordCount b))"
      by (simp add: boostWord_def Let_def split_beta)
    also have "\<dots> = map (\<lambda>e. if toLowerCase L w = wterm e
                                 then e\<lparr>frequency := frequency e + 2\<rparr> else e)
                        (b_wordFrequencyList b)"
      by (rule boostTerms_list)
    also have "\<dots> = map (\<lambda>e. if wterm e = toLowerCase L w
                                 then e\<lparr>frequency := frequency e + 2\<rparr> else e)
                        (b_wordFrequencyList b)"
      by (rule map_cong) auto
    finally show ?thesis .
  qed
  show ?case
    unfolding unfold Cons.IH
    by (simp add: boostWord_title_count list)
qed

text \<open>
  The result of \<open>scorePage\<close> on an analysed record with terms: the six blocks in their
  order, from the sorted term list and a score of 0.
\<close>

lemma scorePage_blocks:
  assumes "truthyB (analyze pd)" and "terms pd = Some tm"
  shows "scorePage L now pd =
    (let headerOneWords =
           (if truthy (headerOne pd) then Some (split (the (headerOne pd))) else None);
         l6 = headerOneTest pd (productVersion pd (freshness L now pd
                (keywordBoost L pd headerOneWords (descriptionBoost L pd headerOneWords
                  (titleBoost L pd headerOneWords
                     \<lparr>l_wordFrequencyList = sortWordsByFrequency (vocabulary tm) (data0 tm),
                      l_pageScore = 0, l_pageAnalysis = [],
                      l_headerWordsInTitle = 0, l_headerWordsInDescription = 0,
                      l_headerWordsInKeywords = 0\<rparr>)))))
     in Inr (pd\<lparr>pageScore := Some (l_pageScore l6),
                pageAnalysis := Some (l_pageAnalysis l6),
                wordFrequencyList := Some (l_wordFrequencyList l6),
                terms := None\<rparr>))"
  using assms by (simp add: scorePage_def Let_def)

text \<open>
  The freshness, product and H1 rules add to the score and append to the analysis; they
  leave the term list alone.
\<close>

lemma tail_rules_score:
  "l_pageScore (headerOneTest pd (productVersion pd (l\<lparr>l_pageScore := s\<rparr>))) =
     s + l_pageScore (headerOneTest pd (productVersion pd (l\<lparr>l_pageScore := 0\<rparr>)))"
  by (simp add: headerOneTest_def productVersion_def)

lemma tail_rules_analysis:
  "l_pageAnalysis (headerOneTest pd (productVersion pd (l\<lparr>l_pageAnalysis := a\<rparr>))) =
     a @ l_pageAnalysis (headerOneTest pd (productVersion pd (l\<lparr>l_pageAnalysis := []\<rparr>)))"
  by (simp add: headerOneTest_def productVersion_def)

lemma tail_rules_independent:
  "l_pageScore (headerOneTest pd (productVersion pd (l\<lparr>l_pageAnalysis := a\<rparr>))) =
     l_pageScore (headerOneTest pd (productVersion pd l))"
  "l_pageAnalysis (headerOneTest pd (productVersion pd (l\<lparr>l_pageScore := s\<rparr>))) =
     l_pageAnalysis (headerOneTest pd (productVersion pd l))"
  "l_wordFrequencyList (headerOneTest pd (productVersion pd l)) = l_wordFrequencyList l"
  by (simp_all add: headerOneTest_def productVersion_def)

lemma headerOneTest_score:
  "l_pageScore (headerOneTest pd (l\<lparr>l_pageScore := s\<rparr>)) =
     s + l_pageScore (headerOneTest pd (l\<lparr>l_pageScore := 0\<rparr>))"
  by (simp add: headerOneTest_def)

lemma headerOneTest_analysis:
  "l_pageAnalysis (headerOneTest pd (l\<lparr>l_pageAnalysis := a\<rparr>)) =
     a @ l_pageAnalysis (headerOneTest pd (l\<lparr>l_pageAnalysis := []\<rparr>))"
  by (simp add: headerOneTest_def)

lemma headerOneTest_independent:
  "l_pageScore (headerOneTest pd (l\<lparr>l_pageAnalysis := a\<rparr>)) = l_pageScore (headerOneTest pd l)"
  "l_pageAnalysis (headerOneTest pd (l\<lparr>l_pageScore := s\<rparr>)) = l_pageAnalysis (headerOneTest pd l)"
  "l_wordFrequencyList (headerOneTest pd l) = l_wordFrequencyList l"
  by (simp_all add: headerOneTest_def)


subsection \<open>Title boost\<close>

text \<open>
  Claim C2, as amended. \<open>scorePage\<close> on an analysed record with a title runs the title
  block first, on the sorted term list and a score of 0, and the other blocks after it.
  The title block goes through the words of the title, split at each single space and
  case-folded, in their order. A word adds 2 to the score for each entry of the term
  list whose term it equals and whose frequency is above 1 at that moment, and it adds 2
  to the frequency of each entry whose term it equals, whatever the frequency was;
  nothing else changes score or frequencies. When the vocabulary holds each term once, a
  word equals at most one term, so it adds exactly 2 to the score or nothing.
\<close>

theorem title_boost_in_scorePage:
  fixes L now pd tm
  defines "headerOneWords \<equiv>
             (if truthy (headerOne pd) then Some (split (the (headerOne pd))) else None)"
  defines "l0 \<equiv> \<lparr>l_wordFrequencyList = sortWordsByFrequency (vocabulary tm) (data0 tm),
                  l_pageScore = 0, l_pageAnalysis = [],
                  l_headerWordsInTitle = 0, l_headerWordsInDescription = 0,
                  l_headerWordsInKeywords = 0\<rparr>"
  defines "l1 \<equiv> titleBoost L pd headerOneWords l0"
  defines "l6 \<equiv> headerOneTest pd (productVersion pd (freshness L now pd
                   (keywordBoost L pd headerOneWords (descriptionBoost L pd headerOneWords l1))))"
  assumes "truthyB (analyze pd)" and "terms pd = Some tm" and "truthy (title pd)"
  shows "scorePage L now pd =
           Inr (pd\<lparr>pageScore := Some (l_pageScore l6),
                   pageAnalysis := Some (l_pageAnalysis l6),
                   wordFrequencyList := Some (l_wordFrequencyList l6),
                   terms := None\<rparr>) \<and>
         (l_pageScore l1, l_wordFrequencyList l1) =
           foldl (\<lambda>(score, wfl) w.
                    (score + 2 * int (length (filter
                                (\<lambda>e. wterm e = toLowerCase L w \<and> 1 < frequency e) wfl)),
                     map (\<lambda>e. if wterm e = toLowerCase L w
                               then e\<lparr>frequency := frequency e + 2\<rparr> else e) wfl))
             (0, sortWordsByFrequency (vocabulary tm) (data0 tm))
             (split (the (title pd))) \<and>
         (distinct (vocabulary tm) \<longrightarrow>
          (l_pageScore l1, l_wordFrequencyList l1) =
            foldl (\<lambda>(score, wfl) w.
                     (score + (if \<exists>e \<in> set wfl. wterm e = toLowerCase L w \<and> 1 < frequency e
                               then 2 else 0),
                      map (\<lambda>e. if wterm e = toLowerCase L w
                                then e\<lparr>frequency := frequency e + 2\<rparr> else e) wfl))
              (0, sortWordsByFrequency (vocabulary tm) (data0 tm))
              (split (the (title pd))))"
proof (intro conjI impI)
  show "scorePage L now pd =
           Inr (pd\<lparr>pageScore := Some (l_pageScore l6),
                   pageAnalysis := Some (l_pageAnalysis l6),
                   wordFrequencyList := Some (l_wordFrequencyList l6),
                   terms := None\<rparr>)"
    unfolding l6_def l1_def l0_def headerOneWords_def
    using scorePage_blocks[OF assms(5,6), of L now] by (simp add: Let_def)
next
  let ?init = "\<lparr>b_pageScore = 0, b_boostedWordCount = 0, b_headerWords = 0,
                b_wordFrequencyList = sortWordsByFrequency (vocabulary tm) (data0 tm)\<rparr>"
  let ?res = "boostWords L (\<lambda>w. w) 2 2 headerOneWords (split (the (title pd))) ?init"
  have block: "l_pageScore l1 = b_pageScore ?res" "l_wordFrequencyList l1 = b_wordFrequencyList ?res"
    unfolding l1_def l0_def using assms(7) by (simp_all add: titleBoost_def Let_def)
  show "(l_pageScore l1, l_wordFrequencyList l1) =
           foldl (\<lambda>(score, wfl) w.
                    (score + 2 * int (length (filter
                                (\<lambda>e. wterm e = toLowerCase L w \<and> 1 < frequency e) wfl)),
                     map (\<lambda>e. if wterm e = toLowerCase L w
                               then e\<lparr>frequency := frequency e + 2\<rparr> else e) wfl))
             (0, sortWordsByFrequency (vocabulary tm) (data0 tm))
             (split (the (title pd)))"
    using boostWords_title_count_fold[of L headerOneWords "split (the (title pd))" ?init]
    by (simp add: block)
  assume "distinct (vocabulary tm)"
  then have d: "distinct (map wterm (b_wordFrequencyList ?init))"
    by (simp add: sortWordsByFrequency_distinct)
  show "(l_pageScore l1, l_wordFrequencyList l1) =
           foldl (\<lambda>(score, wfl) w.
                    (score + (if \<exists>e \<in> set wfl. wterm e = toLowerCase L w \<and> 1 < frequency e
                              then 2 else 0),
                     map (\<lambda>e. if wterm e = toLowerCase L w
                               then e\<lparr>frequency := frequency e + 2\<rparr> else e) wfl))
             (0, sortWordsByFrequency (vocabulary tm) (data0 tm))
             (split (the (title pd)))"
    using boostWords_title_fold[OF d, of L headerOneWords "split (the (title pd))"]
    by (simp add: block)
qed

theorem title_boost_in_scorePage_witness:
  "truthyB (analyze titledPage) \<and>
   terms titledPage = Some \<lparr>vocabulary = [''docs'', ''home''], data0 = [1, 2]\<rparr> \<and>
   distinct [''docs'', ''home''] \<and> truthy (title titledPage) \<and>
   split (the (title titledPage)) = [''Docs'', ''Home'', ''docs''] \<and>
   sortWordsByFrequency [''docs'', ''home''] [1, 2] =
     [\<lparr>wterm = ''home'', frequency = 2\<rparr>, \<lparr>wterm = ''docs'', frequency = 1\<rparr>] \<and>
   (case scorePage sampleLib sampleNow titledPage of
      Inl e \<Rightarrow> None
    | Inr pd \<Rightarrow> wordFrequencyList pd) =
     Some [\<lparr>wterm = ''home'', frequency = 4\<rparr>, \<lparr>wterm = ''docs'', frequency = 5\<rparr>] \<and>
   (case scorePage sampleLib sampleNow titledPage of
      Inl e \<Rightarrow> None
    | Inr pd \<Rightarrow> pageScore pd) = Some 1"
  using title_boost_in_scorePage [of titledPage
      "\<lparr>vocabulary = [''docs'', ''home''], data0 = [1, 2]\<rparr>" sampleLib sampleNow]
  by (simp add: titledPage_def newPageDetails_def sample_defs scoring_defs Let_def)

text \<open>
  Claim C2 as first stated says that a title word matching a term of frequency 1 changes
  neither score nor frequency, and that the title is split at white space. For the page
  titled \<open>Docs\<close> whose term \<open>docs\<close> was counted once, the frequency in the scored page is
  3. For the page titled \<open>SEO\<close>, tab, \<open>docs\<close> whose term \<open>docs\<close> was counted twice, the title is
  one word that matches nothing: the frequency stays 2 and no title word is reported in
  the body.
\<close>

theorem title_boost_low_frequency_counterexample:
  "sortWordsByFrequency [''docs''] [1] = [\<lparr>wterm = ''docs'', frequency = 1\<rparr>] \<and>
   (case scorePage sampleLib sampleNow titleOncePage of
      Inl e \<Rightarrow> None
    | Inr pd \<Rightarrow> wordFrequencyList pd) = Some [\<lparr>wterm = ''docs'', frequency = 3\<rparr>] \<and>
   (case scorePage sampleLib sampleNow titleOncePage of
      Inl e \<Rightarrow> None
    | Inr pd \<Rightarrow> pageScore pd) = Some (- 3) \<and>
   (case scorePage sampleLib sampleNow tabTitlePage of
      Inl e \<Rightarrow> None
    | Inr pd \<Rightarrow> wordFrequencyList pd) = Some [\<lparr>wterm = ''docs'', frequency = 2\<rparr>] \<and>
   (case scorePage sampleLib sampleNow tabTitlePage of
      Inl e \<Rightarrow> None
    | Inr pd \<Rightarrow> pageAnalysis pd) =
     Some (''bad: no title words appear in body.; very bad: no description.'' @
           ''; very bad: no keywords.; bad: page missing last-modified.'' @
           ''; bad: page missing H1.'')"
  by (simp add: titleOncePage_def tabTitlePage_def newPageDetails_def sample_defs scoring_defs
      Let_def)

subsection \<open>Keyword boost\<close>

text \<open>
  Claim C5. The keyword list is to be split at every comma. For the keywords
  \<open>seo,crawl,page\<close> only the first comma separates: the words are \<open>seo\<close> and
  \<open>crawl,page\<close>, so the term \<open>crawl\<close> with frequency 2 is not boosted and the analysis
  reports that no keyword appears in the body.
\<close>

theorem keywords_only_first_comma_splits:
  "keywordWords ''seo,crawl,page'' = [''seo'', ''crawl,page''] \<and>
   (case scorePage sampleLib sampleNow keywordsPage of
      Inl e \<Rightarrow> None
    | Inr pd \<Rightarrow> wordFrequencyList pd) = Some [\<lparr>wterm = ''crawl'', frequency = 2\<rparr>] \<and>
   (case scorePage sampleLib sampleNow keywordsPage of
      Inl e \<Rightarrow> None
    | Inr pd \<Rightarrow> pageAnalysis pd) =
     Some (''; very bad: no title.; very bad: no description.'' @
           ''; bad: no keywords appear in body.; bad: page missing last-modified.'' @
           ''; bad: page missing H1.'')"
  by (simp add: keywordsPage_def newPageDetails_def sample_defs scoring_defs Let_def)

subsection \<open>Freshness\<close>

text \<open>
  Claim C6. Let \<open>l3\<close> be the state of \<open>scorePage\<close> after the three boost blocks of an
  analysed record, \<open>rest\<close> what the product and H1 rules add to the score, and \<open>tail\<close>
  the clauses they append. When \<open>lastModified\<close> is present and parses to the time \<open>t\<close>,
  an age \<open>now - t\<close> above 365 days (31536000000 milliseconds) makes the score of the page
  \<open>l3 - 1 + rest\<close> and puts the clause "bad: page over 1 year old" into the analysis; an
  age of 365 days or less makes it \<open>l3 + 1 + rest\<close> with the clause "good: page is recent";
  when \<open>lastModified\<close> is absent the score is \<open>l3 - 2 + rest\<close> with the clause "bad: page
  missing last-modified". \<open>now\<close> is the current time that \<open>scorePage\<close> reads.
\<close>

theorem freshness_in_scorePage:
  fixes L now pd tm t
  defines "headerOneWords \<equiv>
             (if truthy (headerOne pd) then Some (split (the (headerOne pd))) else None)"
  defines "l3 \<equiv> keywordBoost L pd headerOneWords (descriptionBoost L pd headerOneWords
                   (titleBoost L pd headerOneWords
                      \<lparr>l_wordFrequencyList = sortWordsByFrequency (vocabulary tm) (data0 tm),
                       l_pageScore = 0, l_pageAnalysis = [],
                       l_headerWordsInTitle = 0, l_headerWordsInDescription = 0,
                       l_headerWordsInKeywords = 0\<rparr>))"
  defines "rest \<equiv> l_pageScore (headerOneTest pd (productVersion pd (l3\<lparr>l_pageScore := 0\<rparr>)))"
  defines "tail \<equiv>
             l_pageAnalysis (headerOneTest pd (productVersion pd (l3\<lparr>l_pageAnalysis := []\<rparr>)))"
  assumes "truthyB (analyze pd)" and "terms pd = Some tm"
  shows "(truthy (lastModified pd) \<and> parseDate L (the (lastModified pd)) = Some t \<and>
            now - t > 31536000000 \<longrightarrow>
            scorePage L now pd =
              Inr (pd\<lparr>pageScore := Some (l_pageScore l3 - 1 + rest),
                      pageAnalysis :=
                        Some (l_pageAnalysis l3 @ ''; bad: page over 1 year old.'' @ tail),
                      wordFrequencyList := Some (l_wordFrequencyList l3),
                      terms := None\<rparr>)) \<and>
         (truthy (lastModified pd) \<and> parseDate L (the (lastModified pd)) = Some t \<and>
            now - t \<le> 31536000000 \<longrightarrow>
            scorePage L now pd =
              Inr (pd\<lparr>pageScore := Some (l_pageScore l3 + 1 + rest),
                      pageAnalysis :=
                        Some (l_pageAnalysis l3 @ ''; good: page is recent.'' @ tail),
                      wordFrequencyList := Some (l_wordFrequencyList l3),
                      terms := None\<rparr>)) \<and>
         (\<not> truthy (lastModified pd) \<longrightarrow>
            scorePage L now pd =
              Inr (pd\<lparr>pageScore := Some (l_pageScore l3 - 2 + rest),
                      pageAnalysis :=
                        Some (l_pageAnalysis l3 @ ''; bad: page missing last-modified.'' @ tail),
                      wordFrequencyList := Some (l_wordFrequencyList l3),
                      terms := None\<rparr>))"
proof -
  have blocks: "scorePage L now pd =
      Inr (pd\<lparr>pageScore :=
                 Some (l_pageScore (headerOneTest pd (productVersion pd (freshness L now pd l3)))),
              pageAnalysis :=
                 Some (l_pageAnalysis (headerOneTest pd (productVersion pd (freshness L now pd l3)))),
              wordFrequencyList :=
                 Some (l_wordFrequencyList
                         (headerOneTest pd (productVersion pd (freshness L now pd l3)))),
              terms := None\<rparr>)"
    unfolding l3_def headerOneWords_def
    using scorePage_blocks[OF assms(5,6), of L now] by (simp add: Let_def)
  have step: "l_pageScore (headerOneTest pd (productVersion pd
                 (l3\<lparr>l_pageScore := l_pageScore l3 + d, l_pageAnalysis := l_pageAnalysis l3 @ c\<rparr>))) =
                l_pageScore l3 + d + rest \<and>
              l_pageAnalysis (headerOneTest pd (productVersion pd
                 (l3\<lparr>l_pageScore := l_pageScore l3 + d, l_pageAnalysis := l_pageAnalysis l3 @ c\<rparr>))) =
                l_pageAnalysis l3 @ c @ tail \<and>
              l_wordFrequencyList (headerOneTest pd (productVersion pd
                 (l3\<lparr>l_pageScore := l_pageScore l3 + d, l_pageAnalysis := l_pageAnalysis l3 @ c\<rparr>))) =
                l_wordFrequencyList l3" for d c
    unfolding rest_def tail_def by (simp add: headerOneTest_def productVersion_def)
  show ?thesis
    unfolding blocks
    using step[where d = "- 1" and c = "''; bad: page over 1 year old.''"]
      step[where d = 1 and c = "''; good: page is recent.''"]
      step[where d = "- 2" and c = "''; bad: page missing last-modified.''"]
    by (simp add: freshness_def oneYear_def)
qed

theorem freshness_in_scorePage_witness:
  "truthyB (analyze plainPage) \<and> terms plainPage = Some \<lparr>vocabulary = [], data0 = []\<rparr> \<and>
   parseDate sampleLib ''2025-11-03'' = Some 1762128000000 \<and>
   sampleNow - 1762128000000 \<le> 31536000000 \<and>
   (case scorePage sampleLib sampleNow (plainPage\<lparr>lastModified := Some ''2025-11-03''\<rparr>) of
      Inl e \<Rightarrow> None
    | Inr pd \<Rightarrow> pageScore pd) = Some 0 \<and>
   parseDate sampleLib ''2025-11-02'' = Some 1762041600000 \<and>
   sampleNow - 1762041600000 > 31536000000 \<and>
   (case scorePage sampleLib sampleNow (plainPage\<lparr>lastModified := Some ''2025-11-02''\<rparr>) of
      Inl e \<Rightarrow> None
    | Inr pd \<Rightarrow> pageScore pd) = Some (- 2) \<and>
   (case scorePage sampleLib sampleNow (plainPage\<lparr>lastModified := None\<rparr>) of
      Inl e \<Rightarrow> None
    | Inr pd \<Rightarrow> pageScore pd) = Some (- 3)"
  using
    freshness_in_scorePage [of "plainPage\<lparr>lastModified := Some ''2025-11-03''\<rparr>"
      "\<lparr>vocabulary = [], data0 = []\<rparr>" sampleLib 1762128000000 sampleNow]
    freshness_in_scorePage [of "plainPage\<lparr>lastModified := Some ''2025-11-02''\<rparr>"
      "\<lparr>vocabulary = [], data0 = []\<rparr>" sampleLib 1762041600000 sampleNow]
    freshness_in_scorePage [of "plainPage\<lparr>lastModified := None\<rparr>"
      "\<lparr>vocabulary = [], data0 = []\<rparr>" sampleLib 0 sampleNow]
  by (simp add: plainPage_def newPageDetails_def sample_defs titleBoost_def descriptionBoost_def
      keywordBoost_def productVersion_def headerOneTest_def sortWordsByFrequency_def)

section \<open>Properties of the frontier and the completion pass\<close>

lemma update_absent:
  "k \<notin> fst ` set al \<Longrightarrow> AList.update k v al = al @ [(k, v)]"
  by (induction al) auto

lemma isUndefined_absent:
  "isUndefined pv k \<Longrightarrow> k \<notin> fst ` set pv"
  by (simp add: isUndefined_def map_of_eq_None_iff)

lemma isUndefined_append:
  "\<not> isUndefined (pv @ [(k, v)]) k"
  by (simp add: isUndefined_def)

text \<open>
  Claim C1. Let \<open>u\<close> be a URL that has no record yet (the lookup of its key is
  \<open>undefined\<close>; the key is \<open>u\<close>, with the configured protocol in front when \<open>u\<close> starts
  with \<open>//\<close>). The first call of \<open>queueURLToCrawl\<close> returns true and the second returns
  false and leaves the state as it is. After the first call the map is the old one
  with one record appended under the key, so exactly one record has that key; the record
  has status \<open>-1\<close>, the referrer and the analyze mode given.
\<close>

theorem enqueue_twice:
  assumes "isUndefined (pagesVisited st) (queueKey cfg u)"
  shows "fst (queueURLToCrawl cfg now u ref an st) = True \<and>
         fst (queueURLToCrawl cfg now' u ref' an' (snd (queueURLToCrawl cfg now u ref an st)))
           = False \<and>
         snd (queueURLToCrawl cfg now' u ref' an' (snd (queueURLToCrawl cfg now u ref an st)))
           = snd (queueURLToCrawl cfg now u ref an st) \<and>
         pagesVisited (snd (queueURLToCrawl cfg now u ref an st)) =
           pagesVisited st @ [(queueKey cfg u, newPageDetails now ref an)] \<and>
         length (filter (\<lambda>(k, pd). k = queueKey cfg u)
                   (pagesVisited (snd (queueURLToCrawl cfg now u ref an st)))) = 1 \<and>
         statusCode (newPageDetails now ref an) = Some (- 1) \<and>
         referrer (newPageDetails now ref an) = Some ref \<and>
         analyze (newPageDetails now ref an) = Some an \<and>
         (take 2 u \<noteq> ''//'' \<longrightarrow> queueKey cfg u = u)"
proof -
  let ?k = "queueKey cfg u"
  let ?st1 = "snd (queueURLToCrawl cfg now u ref an st)"
  from assms have absent: "?k \<notin> fst ` set (pagesVisited st)" by (rule isUndefined_absent)
  have st1: "queueURLToCrawl cfg now u ref an st =
               (True, st\<lparr>pagesVisited := pagesVisited st @ [(?k, newPageDetails now ref an)],
                         queued := queued st @ [?k]\<rparr>)"
    using assms by (simp add: queueURLToCrawl_def Let_def update_absent[OF absent])
  have pv1: "pagesVisited ?st1 = pagesVisited st @ [(?k, newPageDetails now ref an)]"
    by (simp add: st1)
  have second: "queueURLToCrawl cfg now' u ref' an' ?st1 = (False, ?st1)"
    unfolding queueURLToCrawl_def[of cfg now' u ref' an' ?st1] Let_def pv1
    using isUndefined_append[of "pagesVisited st" ?k] by simp
  have none: "filter (\<lambda>(k, pd). k = ?k) (pagesVisited st) = []"
    using absent by (force simp: filter_empty_conv)
  have one: "length (filter (\<lambda>(k, pd). k = ?k) (pagesVisited ?st1)) = 1"
    by (simp add: pv1 none)
  show ?thesis
    using st1 second pv1 one by (simp add: newPageDetails_def queueKey_def)
qed

theorem enqueue_twice_witness:
  "isUndefined (pagesVisited \<lparr>pagesVisited = [], queued = []\<rparr>)
     (queueKey docsConfiguration ''https://host/docs/index.html'') \<and>
   fst (queueURLToCrawl docsConfiguration 0 ''https://host/docs/index.html'' ''r'' True
          \<lparr>pagesVisited = [], queued = []\<rparr>) = True \<and>
   fst (queueURLToCrawl docsConfiguration 1 ''https://host/docs/index.html'' ''s'' False
          (snd (queueURLToCrawl docsConfiguration 0 ''https://host/docs/index.html'' ''r'' True
                  \<lparr>pagesVisited = [], queued = []\<rparr>))) = False \<and>
   pagesVisited (snd (queueURLToCrawl docsConfiguration 0 ''https://host/docs/index.html''
                        ''r'' True \<lparr>pagesVisited = [], queued = []\<rparr>)) =
     [(''https://host/docs/index.html'', newPageDetails 0 ''r'' True)]"
proof -
  have h: "isUndefined (pagesVisited \<lparr>pagesVisited = [], queued = []\<rparr>)
             (queueKey docsConfiguration ''https://host/docs/index.html'')"
    by (simp add: isUndefined_def objectPrototypeNames_def queueKey_def)
  have k: "queueKey docsConfiguration ''https://host/docs/index.html'' =
             ''https://host/docs/index.html''"
    by (simp add: queueKey_def)
  show ?thesis
    using h enqueue_twice [OF h, where now = 0 and ref = "''r''" and an = True and now' = 1
        and ref' = "''s''" and an' = False]
    by (simp add: k)
qed

lemma scorePage_keeps:
  "scorePage L now pd = Inr pd' \<Longrightarrow>
     statusCode pd' = statusCode pd \<and> version pd' = version pd \<and> analyze pd' = analyze pd"
  by (auto simp: scorePage_def Let_def split: if_splits option.splits)

lemma adjustTermScores_result:
  "adjustTermScores L now pv = (None, pv') \<Longrightarrow>
     pv' = map (\<lambda>(u, pd). (u,
               if truthyB (analyze pd) \<and> pageScore pd = Some 0
               then (case scorePage L now pd of Inr pd' \<Rightarrow> pd' | Inl e \<Rightarrow> pd) else pd))
             (filter (\<lambda>(u, pd). statusCode pd \<noteq> Some (- 1)) pv)"
proof (induction pv arbitrary: pv')
  case Nil
  then show ?case by simp
next
  case (Cons a pv)
  obtain u pd where a: "a = (u, pd)" by (cases a)
  from Cons.prems show ?case unfolding a
    by (auto split: if_splits sum.splits prod.splits dest: Cons.IH)
qed

text \<open>
  When the completion pass returns, the map holds no record whose status is the sentinel
  \<open>-1\<close>; its keys are the keys of the records that had another status, in their order;
  and a retained record that is not scored again is the record it was.
\<close>

lemma adjustTermScores_returned:
  assumes "adjustTermScores L now pv = (None, pv')"
  shows "(\<forall>(u, pd) \<in> set pv'. statusCode pd \<noteq> Some (- 1)) \<and>
         map fst pv' = map fst (filter (\<lambda>(u, pd). statusCode pd \<noteq> Some (- 1)) pv) \<and>
         (\<forall>(u, pd) \<in> set pv.
            statusCode pd \<noteq> Some (- 1) \<and> \<not> (truthyB (analyze pd) \<and> pageScore pd = Some 0)
            \<longrightarrow> (u, pd) \<in> set pv')"
proof -
  let ?again = "\<lambda>pd. if truthyB (analyze pd) \<and> pageScore pd = Some 0
                  then (case scorePage L now pd of Inr pd' \<Rightarrow> pd' | Inl e \<Rightarrow> pd) else pd"
  let ?kept = "filter (\<lambda>(u, pd). statusCode pd \<noteq> Some (- 1)) pv"
  have pv': "pv' = map (\<lambda>(u, pd). (u, ?again pd)) ?kept"
    using adjustTermScores_result[OF assms] .
  have status: "\<And>pd. statusCode (?again pd) = statusCode pd"
    by (auto split: sum.splits dest: scorePage_keeps)
  have a: "\<forall>(u, pd) \<in> set pv'. statusCode pd \<noteq> Some (- 1)"
    unfolding pv' using status by (auto simp del: split_paired_All)
  have b: "map fst pv' = map fst ?kept"
    unfolding pv' by (simp add: split_beta comp_def)
  have c: "\<forall>(u, pd) \<in> set pv.
            statusCode pd \<noteq> Some (- 1) \<and> \<not> (truthyB (analyze pd) \<and> pageScore pd = Some 0)
            \<longrightarrow> (u, pd) \<in> set pv'"
    unfolding pv' by (force simp: image_iff)
  from a b c show ?thesis by blast
qed

section \<open>Properties of the URL resolver\<close>

text \<open>
  Claim C4. The resolver is to answer \<open>null\<close> for every href whose canonical URL has a
  record. In the crawl under \<open>/docs\<close>, with a record for
  \<open>https://host/docs/page2.html\<close>, the href \<open>/docs/page2.html\<close> is resolved to that URL and
  returned for analysis: the map is looked up under the raw href. Only the href that is
  spelled like the key is answered with \<open>null\<close>.
\<close>

theorem recorded_url_returned_again:
  "map fst (pagesVisited docsState) =
     [''https://host/docs/index.html'', ''https://host/docs/page2.html''] \<and>
   cleanURL sampleLib (startConfiguration sampleLib docsConfiguration) sampleNow
     (Some ''/docs/page2.html'') ''/docs/index.html'' ''https://host/docs/index.html'' docsState
     = (Some ''https://host/docs/page2.html'', docsState) \<and>
   cleanURL sampleLib (startConfiguration sampleLib docsConfiguration) sampleNow
     (Some ''https://host/docs/page2.html'') ''/docs/index.html''
     ''https://host/docs/index.html'' docsState
     = (None, docsState)"
  by (simp add: sample_defs docsState_def crawler_defs Let_def)

text \<open>
  Claim C3. The root URL and its index page are to collapse to one record. In the crawl
  from the root of the site both are in scope, where the resolver does no aliasing:
  \<open>https://host/\<close> and \<open>https://host/index.html\<close> resolve to themselves, and a link to
  \<open>https://host/\<close> on the start page \<open>/index.html\<close> adds a second record for the same page.
\<close>

theorem index_page_not_aliased_in_scope:
  "cleanURL sampleLib (startConfiguration sampleLib rootConfiguration) sampleNow
     (Some ''https://host/'') ''/index.html'' ''https://host/index.html''
     \<lparr>pagesVisited = [], queued = []\<rparr>
     = (Some ''https://host/'', \<lparr>pagesVisited = [], queued = []\<rparr>) \<and>
   cleanURL sampleLib (startConfiguration sampleLib rootConfiguration) sampleNow
     (Some ''https://host/index.html'') ''/index.html'' ''https://host/index.html''
     \<lparr>pagesVisited = [], queued = []\<rparr>
     = (Some ''https://host/index.html'', \<lparr>pagesVisited = [], queued = []\<rparr>) \<and>
   map fst (pagesVisited
     (followAnchor sampleLib (startConfiguration sampleLib rootConfiguration) sampleNow
        ''/index.html'' ''https://host/index.html''
        (startCrawler sampleLib rootConfiguration 0) (Some ''https://host/'')))
     = [''https://host/index.html'', ''https://host/'']"
  by (simp add: sample_defs rootConfiguration_def crawler_defs Let_def)

text \<open>
  Claim C7. The host of a link is to be compared with the configured host without regard
  to case. The code lower-cases the host name of the link only. With the configured host
  \<open>host\<close> the link \<open>https://host/docs/page2.html\<close> is in scope and returned for analysis.
  With the configured host written \<open>Host\<close> the same link is out of scope, as is every
  host name \<open>Host\<close> or \<open>host\<close>: on the start page it is queued for a probe only.
\<close>

theorem configured_host_case_not_folded:
  "cleanURL sampleLib (startConfiguration sampleLib docsConfiguration) sampleNow
     (Some ''https://host/docs/page2.html'') ''/docs/index.html'' ''https://host/docs/index.html''
     (startCrawler sampleLib docsConfiguration 0)
     = (Some ''https://host/docs/page2.html'', startCrawler sampleLib docsConfiguration 0) \<and>
   toLowerCase sampleLib ''Host'' = toLowerCase sampleLib ''host'' \<and>
   \<not> isIntendedSubPath sampleLib
       (startConfiguration sampleLib (docsConfiguration\<lparr>host := ''Host''\<rparr>))
       \<lparr>url_protocol = ''https:'', url_hostname = ''Host'', url_pathname = ''/docs/page2.html''\<rparr> \<and>
   \<not> isIntendedSubPath sampleLib
       (startConfiguration sampleLib (docsConfiguration\<lparr>host := ''Host''\<rparr>))
       \<lparr>url_protocol = ''https:'', url_hostname = ''host'', url_pathname = ''/docs/page2.html''\<rparr> \<and>
   fst (cleanURL sampleLib (startConfiguration sampleLib (docsConfiguration\<lparr>host := ''Host''\<rparr>))
          sampleNow (Some ''https://host/docs/page2.html'') ''/docs/index.html''
          ''https://Host/docs/index.html''
          (startCrawler sampleLib (docsConfiguration\<lparr>host := ''Host''\<rparr>) 0))
     = None \<and>
   map (\<lambda>(u, pd). (u, analyze pd))
     (pagesVisited
        (followAnchor sampleLib (startConfiguration sampleLib (docsConfiguration\<lparr>host := ''Host''\<rparr>))
           sampleNow ''/docs/index.html'' ''https://Host/docs/index.html''
           (startCrawler sampleLib (docsConfiguration\<lparr>host := ''Host''\<rparr>) 0)
           (Some ''https://host/docs/page2.html'')))
     = [(''https://Host/docs/index.html'', Some True),
        (''https://host/docs/page2.html'', Some False)]"
  by (simp add: sample_defs crawler_defs Let_def)

section \<open>Properties of a crawl run\<close>

text \<open>
  Claim C10. Every call of \<open>scorePage\<close> on an analysed record is to find \<open>terms\<close>
  present. The start page of the crawl under \<open>/docs\<close> is answered with a page without
  title and H1 that was modified two days ago: its score is 0 and \<open>terms\<close> is deleted.
  When the queue is empty after this answer, the completion pass scores the record
  again and the read of \<open>terms.vocabulary\<close> throws.
\<close>

theorem second_scoring_throws:
  "map (\<lambda>(u, pd). (u, analyze pd, pageScore pd, terms pd))
     (pagesVisited (snd (handleResponse sampleLib (startConfiguration sampleLib docsConfiguration)
        sampleNow (startPageResponse plainDocument)
        (startCrawler sampleLib docsConfiguration 0))))
     = [(''https://host/docs/index.html'', Some True, Some 0, None)] \<and>
   fst (analyzePage sampleLib (startConfiguration sampleLib docsConfiguration) sampleNow
          (Some (startPageResponse plainDocument)) 0
          (startCrawler sampleLib docsConfiguration 0))
     = Some TypeError"
  by (simp add: sample_defs plainDocument_def startPageResponse_def crawler_defs scoring_defs Let_def)

text \<open>
  Claim C8. After the completion pass no record with the status \<open>-1\<close> is to be left in
  the map. The start page of the crawl under \<open>/docs\<close> is answered with the plain page and
  one link, to \<open>/docs/page2.html\<close>; its score is 0. The fetch of \<open>page2.html\<close> fails, the
  queue is empty and the completion pass runs: it scores the start page again, which
  throws, and never reaches the record of \<open>page2.html\<close>, which stays in the map with the
  status \<open>-1\<close>.
\<close>

theorem unanswered_record_left_by_failed_pass:
  "map (\<lambda>(u, pd). (u, statusCode pd, pageScore pd))
     (pagesVisited
        (snd (analyzePage sampleLib (startConfiguration sampleLib docsConfiguration) sampleNow
                (Some (startPageResponse linkingDocument)) 1
                (startCrawler sampleLib docsConfiguration 0))))
     = [(''https://host/docs/index.html'', Some 200, Some 0),
        (''https://host/docs/page2.html'', Some (- 1), Some 0)] \<and>
   fst (analyzePage sampleLib (startConfiguration sampleLib docsConfiguration) sampleNow None 0
          (snd (analyzePage sampleLib (startConfiguration sampleLib docsConfiguration) sampleNow
                  (Some (startPageResponse linkingDocument)) 1
                  (startCrawler sampleLib docsConfiguration 0))))
     = Some TypeError \<and>
   map (\<lambda>(u, pd). (u, statusCode pd))
     (pagesVisited
        (snd (analyzePage sampleLib (startConfiguration sampleLib docsConfiguration) sampleNow
                None 0
                (snd (analyzePage sampleLib (startConfiguration sampleLib docsConfiguration)
                        sampleNow (Some (startPageResponse linkingDocument)) 1
                        (startCrawler sampleLib docsConfiguration 0))))))
     = [(''https://host/docs/index.html'', Some 200),
        (''https://host/docs/page2.html'', Some (- 1))] \<and>
   reachable sampleLib docsConfiguration
     (snd (analyzePage sampleLib (startConfiguration sampleLib docsConfiguration) sampleNow
             None 0
             (snd (analyzePage sampleLib (startConfiguration sampleLib docsConfiguration)
                     sampleNow (Some (startPageResponse linkingDocument)) 1
                     (startCrawler sampleLib docsConfiguration 0)))))"
proof (intro conjI)
  show "reachable sampleLib docsConfiguration
     (snd (analyzePage sampleLib (startConfiguration sampleLib docsConfiguration) sampleNow
             None 0
             (snd (analyzePage sampleLib (startConfiguration sampleLib docsConfiguration)
                     sampleNow (Some (startPageResponse linkingDocument)) 1
                     (startCrawler sampleLib docsConfiguration 0)))))"
    by (rule reachable.completion[OF reachable.completion[OF reachable.start]])
qed (simp_all add: sample_defs plainDocument_def linkingDocument_def startPageResponse_def
       crawler_defs scoring_defs Let_def)


subsection \<open>Which records a step can leave in the map\<close>

lemma update_set:
  "(u, pd) \<in> set (AList.update k v al) \<Longrightarrow> (u, pd) = (k, v) \<or> (u, pd) \<in> set al"
  by (induction al) (auto split: if_splits)

lemma queueURLToCrawl_records:
  assumes "(u, pd) \<in> set (pagesVisited (snd (queueURLToCrawl cfg now URL ref an st)))"
  shows "(u, pd) \<in> set (pagesVisited st) \<or> pd = newPageDetails now ref an"
  using assms
  by (auto simp: queueURLToCrawl_def Let_def split: if_splits dest: update_set)

lemma cleanURL_records:
  assumes "(u, pd) \<in> set (pagesVisited (snd (cleanURL L cfg now href cur ref st)))"
  shows "(u, pd) \<in> set (pagesVisited st) \<or> pd = newPageDetails now ref False"
  using assms
  by (auto simp: cleanURL_def Let_def split: option.splits if_splits
      dest: queueURLToCrawl_records)

lemma followAnchor_records:
  assumes "(u, pd) \<in> set (pagesVisited (followAnchor L cfg now cur ref st a))"
  shows "(u, pd) \<in> set (pagesVisited st) \<or> (\<exists>an. pd = newPageDetails now ref an)"
proof (cases "fst (cleanURL L cfg now a cur ref st)")
  case None
  then have "followAnchor L cfg now cur ref st a = snd (cleanURL L cfg now a cur ref st)"
    by (simp add: followAnchor_def split_beta)
  with assms show ?thesis by (auto dest: cleanURL_records)
next
  case (Some href)
  then have "followAnchor L cfg now cur ref st a =
      snd (queueURLToCrawl cfg now href ref True (snd (cleanURL L cfg now a cur ref st)))"
    by (simp add: followAnchor_def split_beta)
  with assms show ?thesis by (auto dest!: queueURLToCrawl_records cleanURL_records)
qed

lemma anchors_records:
  assumes "(u, pd) \<in> set (pagesVisited (foldl (followAnchor L cfg now cur ref) st as))"
  shows "(u, pd) \<in> set (pagesVisited st) \<or> (\<exists>an. pd = newPageDetails now ref an)"
  using assms
proof (induction as arbitrary: st)
  case Nil
  then show ?case by simp
next
  case (Cons a as)
  from Cons.prems have
    "(u, pd) \<in> set (pagesVisited (foldl (followAnchor L cfg now cur ref)
                                     (followAnchor L cfg now cur ref st a) as))"
    by simp
  from Cons.IH[OF this] show ?case by (auto dest: followAnchor_records)
qed

lemma adjustTermScores_records:
  assumes "(u, pd') \<in> set (snd (adjustTermScores L now pv))"
  shows "\<exists>pd. (u, pd) \<in> set pv \<and> (pd' = pd \<or> scorePage L now pd = Inr pd')"
  using assms
proof (induction pv)
  case Nil
  then show ?case by simp
next
  case (Cons a pv)
  obtain k d where a: "a = (k, d)" by (cases a)
  from Cons.prems Cons.IH show ?case unfolding a
    by (auto simp: split_beta split: if_splits sum.splits)
qed

lemma newPageDetails_version: "version (newPageDetails now ref an) = Some []"
  by (simp add: newPageDetails_def)

lemma extractMetadata_keeps:
  "version (extractMetadata L doc pd) = version pd"
  "analyze (extractMetadata L doc pd) = analyze pd"
  "product (extractMetadata L doc pd) = doc_product doc"
  by (simp_all add: extractMetadata_def)

lemma handleResponse_shape:
  fixes L cfg now res st
  defines "url \<equiv> uri_href res"
  defines "pd1 \<equiv> (case map_of (pagesVisited st) url of Some pd \<Rightarrow> pd | None \<Rightarrow> emptyObject)
                    \<lparr>statusCode := Some (res_statusCode res)\<rparr>"
  defines "st' \<equiv> snd (handleResponse L cfg now res st)"
  shows "st' = st \<or>
     pagesVisited st' =
       AList.update url (pd1\<lparr>analyze := Some False, completeTime := Some now\<rparr>) (pagesVisited st) \<or>
     (\<exists>doc pd4 st1.
        st1 = foldl (followAnchor L cfg now (url_pathname (URLParse L url)) url) st (doc_anchors doc) \<and>
        scorePage L now ((extractMetadata L doc pd1)\<lparr>terms := Some (doc_terms doc)\<rparr>) = Inr pd4 \<and>
        pagesVisited st' = AList.update url (pd4\<lparr>completeTime := Some now\<rparr>) (pagesVisited st1)) \<or>
     (\<exists>doc st1.
        st1 = foldl (followAnchor L cfg now (url_pathname (URLParse L url)) url) st (doc_anchors doc) \<and>
        pagesVisited st' =
          AList.update url ((extractMetadata L doc pd1)\<lparr>terms := Some (doc_terms doc)\<rparr>)
            (pagesVisited st1))"
  unfolding st'_def pd1_def url_def handleResponse_def Let_def
  by (auto split: option.splits sum.splits)

lemma handleResponse_version:
  assumes inv: "\<forall>(u, pd) \<in> set (pagesVisited st).
                  version pd = Some [] \<or> version pd = None \<and> \<not> truthyB (analyze pd)"
    and mem: "(u, pd) \<in> set (pagesVisited (snd (handleResponse L cfg now res st)))"
  shows "version pd = Some [] \<or> version pd = None \<and> \<not> truthyB (analyze pd)"
proof -
  let ?P = "\<lambda>pd. version pd = Some [] \<or> version pd = None \<and> \<not> truthyB (analyze pd)"
  let ?url = "uri_href res"
  let ?pd0 = "case map_of (pagesVisited st) ?url of Some pd \<Rightarrow> pd | None \<Rightarrow> emptyObject"
  let ?pd1 = "?pd0\<lparr>statusCode := Some (res_statusCode res)\<rparr>"
  let ?st' = "snd (handleResponse L cfg now res st)"
  have old: "\<And>u pd. (u, pd) \<in> set (pagesVisited st) \<Longrightarrow> ?P pd"
    using inv by auto
  have P0: "?P ?pd0"
    using old by (auto simp: emptyObject_def split: option.splits dest!: map_of_SomeD)
  have loop: "\<And>u pd cur as.
      (u, pd) \<in> set (pagesVisited (foldl (followAnchor L cfg now cur ?url) st as)) \<Longrightarrow> ?P pd"
    using old by (auto dest!: anchors_records simp: newPageDetails_version)
  have off: "?P (?pd1\<lparr>analyze := Some False, completeTime := Some now\<rparr>)"
    using P0 by auto
  have scored: "\<And>doc pd4.
      scorePage L now ((extractMetadata L doc ?pd1)\<lparr>terms := Some (doc_terms doc)\<rparr>) = Inr pd4 \<Longrightarrow>
      ?P (pd4\<lparr>completeTime := Some now\<rparr>)"
    using P0 by (auto dest!: scorePage_keeps simp: extractMetadata_keeps)
  have thrown: "\<And>doc. ?P ((extractMetadata L doc ?pd1)\<lparr>terms := Some (doc_terms doc)\<rparr>)"
    using P0 by (auto simp: extractMetadata_keeps)
  have upd: "?P pd"
    if "pagesVisited ?st' = AList.update ?url pdX (pagesVisited stX)" and "?P pdX"
      and "\<And>u pd. (u, pd) \<in> set (pagesVisited stX) \<Longrightarrow> ?P pd" for pdX and stX :: crawlState
  proof -
    from mem that(1) have "(u, pd) = (?url, pdX) \<or> (u, pd) \<in> set (pagesVisited stX)"
      using update_set[of u pd ?url pdX "pagesVisited stX"] by simp
    then show ?thesis
    proof
      assume "(u, pd) = (?url, pdX)"
      with that(2) show ?thesis by simp
    next
      assume "(u, pd) \<in> set (pagesVisited stX)"
      then show ?thesis by (rule that(3))
    qed
  qed
  from handleResponse_shape[of L cfg now res st] show ?thesis
  proof (elim disjE exE conjE)
    assume "?st' = st"
    with mem show ?thesis using old[of u pd] by simp
  next
    assume "pagesVisited ?st' =
      AList.update ?url (?pd1\<lparr>analyze := Some False, completeTime := Some now\<rparr>) (pagesVisited st)"
    from upd[OF this off old] show ?thesis .
  next
    fix doc pd4 st1
    assume st1: "st1 = foldl (followAnchor L cfg now (url_pathname (URLParse L ?url)) ?url) st
                         (doc_anchors doc)"
      and sc: "scorePage L now ((extractMetadata L doc ?pd1)\<lparr>terms := Some (doc_terms doc)\<rparr>) = Inr pd4"
      and pv: "pagesVisited ?st' = AList.update ?url (pd4\<lparr>completeTime := Some now\<rparr>) (pagesVisited st1)"
    have "\<And>u pd. (u, pd) \<in> set (pagesVisited st1) \<Longrightarrow> ?P pd"
      unfolding st1 by (rule loop)
    from upd[OF pv scored[OF sc] this] show ?thesis .
  next
    fix doc st1
    assume st1: "st1 = foldl (followAnchor L cfg now (url_pathname (URLParse L ?url)) ?url) st
                         (doc_anchors doc)"
      and pv: "pagesVisited ?st' =
                 AList.update ?url ((extractMetadata L doc ?pd1)\<lparr>terms := Some (doc_terms doc)\<rparr>)
                   (pagesVisited st1)"
    have "\<And>u pd. (u, pd) \<in> set (pagesVisited st1) \<Longrightarrow> ?P pd"
      unfolding st1 by (rule loop)
    from upd[OF pv thrown this] show ?thesis .
  qed
qed

lemma analyzePage_version:
  assumes inv: "\<forall>(u, pd) \<in> set (pagesVisited st).
                  version pd = Some [] \<or> version pd = None \<and> \<not> truthyB (analyze pd)"
    and mem: "(u, pd) \<in> set (pagesVisited (snd (analyzePage L cfg now result queueSize st)))"
  shows "version pd = Some [] \<or> version pd = None \<and> \<not> truthyB (analyze pd)"
proof -
  let ?P = "\<lambda>pd. version pd = Some [] \<or> version pd = None \<and> \<not> truthyB (analyze pd)"
  let ?r = "case result of None \<Rightarrow> (None, st) | Some res \<Rightarrow> handleResponse L cfg now res st"
  have mid: "\<And>u pd. (u, pd) \<in> set (pagesVisited (snd ?r)) \<Longrightarrow> ?P pd"
    using inv handleResponse_version[OF inv] by (cases result) auto
  have pass: "\<And>u pd. (u, pd) \<in> set (snd (adjustTermScores L now (pagesVisited (snd ?r)))) \<Longrightarrow> ?P pd"
  proof -
    fix u pd
    assume "(u, pd) \<in> set (snd (adjustTermScores L now (pagesVisited (snd ?r))))"
    then obtain pd0 where "(u, pd0) \<in> set (pagesVisited (snd ?r))"
      and "pd = pd0 \<or> scorePage L now pd0 = Inr pd"
      by (auto dest: adjustTermScores_records)
    with mid[of u pd0] show "?P pd" by (auto dest: scorePage_keeps)
  qed
  have "pagesVisited (snd (analyzePage L cfg now result queueSize st)) = pagesVisited (snd ?r) \<or>
        pagesVisited (snd (analyzePage L cfg now result queueSize st)) =
          snd (adjustTermScores L now (pagesVisited (snd ?r)))"
    by (cases ?r; cases "fst ?r") (auto simp: analyzePage_def split_beta split: if_splits)
  then show ?thesis
  proof
    assume "pagesVisited (snd (analyzePage L cfg now result queueSize st)) = pagesVisited (snd ?r)"
    with mem show ?thesis using mid[of u pd] by simp
  next
    assume "pagesVisited (snd (analyzePage L cfg now result queueSize st)) =
              snd (adjustTermScores L now (pagesVisited (snd ?r)))"
    with mem show ?thesis using pass[of u pd] by simp
  qed
qed

lemma startCrawler_version:
  assumes "(u, pd) \<in> set (pagesVisited (startCrawler L cfg now))"
  shows "version pd = Some []"
  using assms
  by (auto simp: startCrawler_def Let_def newPageDetails_version dest!: queueURLToCrawl_records)

lemma reachable_version:
  assumes "reachable L cfg st" and "(u, pd) \<in> set (pagesVisited st)"
  shows "version pd = Some [] \<or> version pd = None \<and> \<not> truthyB (analyze pd)"
  using assms
proof (induction arbitrary: u pd rule: reachable.induct)
  case (start now)
  then show ?case by (auto dest: startCrawler_version)
next
  case (completion st now result queueSize)
  have "\<forall>(u, pd) \<in> set (pagesVisited st).
          version pd = Some [] \<or> version pd = None \<and> \<not> truthyB (analyze pd)"
    using completion.IH by auto
  from analyzePage_version[OF this completion.prems] show ?case .
qed

text \<open>
  An answer with a status below 300 and a document, for a URL whose record is pending in
  analyze mode, leaves under that URL the record that \<open>scorePage\<close> returns for the
  prepared record, stamped with the completion time.
\<close>

lemma handleResponse_scores:
  fixes L cfg now res st pd doc
  defines "pd3 \<equiv> (extractMetadata L doc (pd\<lparr>statusCode := Some (res_statusCode res)\<rparr>))
                    \<lparr>terms := Some (doc_terms doc)\<rparr>"
  assumes "map_of (pagesVisited st) (uri_href res) = Some pd"
    and "statusCode pd = Some c" and "c < 0" and "truthyB (analyze pd)"
    and "res_statusCode res < 300" and "dollar res = Some doc"
    and "scorePage L now pd3 = Inr pd4"
  shows "map_of (pagesVisited (snd (handleResponse L cfg now res st))) (uri_href res) =
           Some (pd4\<lparr>completeTime := Some now\<rparr>)"
  using assms(2-8) unfolding pd3_def
  by (simp add: handleResponse_def Let_def extractMetadata_def update_conv')

text \<open>
  Claim C9, as amended. No step of a crawl assigns \<open>version\<close>: in every state of a run
  each record's \<open>version\<close> is the empty string it was queued with, or is absent on a
  record that the page processor made itself for an answer whose URL had no record, and
  such a record is never analysed. So no analysed page gets the "product and version"
  clause. When a pending record of a run is answered with a status below 300 and a
  document, the record left in the map is scored thus: with \<open>l4\<close> the state of
  \<open>scorePage\<close> after the boosts and the freshness rule, \<open>rest\<close> what the H1 rule adds and
  \<open>tail\<close> the clause it appends, the score is \<open>l4 - 1 + rest\<close> with the clause "bad: page
  has product but missing version" when the document's product is set (not empty), and
  \<open>l4 + rest\<close> with no product clause otherwise.
\<close>

theorem version_never_assigned:
  fixes L cfg st u pd cfg' now res doc c
  defines "pd3 \<equiv> (extractMetadata L doc (pd\<lparr>statusCode := Some (res_statusCode res)\<rparr>))
                    \<lparr>terms := Some (doc_terms doc)\<rparr>"
  defines "headerOneWords \<equiv>
             (if truthy (headerOne pd3) then Some (split (the (headerOne pd3))) else None)"
  defines "l4 \<equiv> freshness L now pd3
                   (keywordBoost L pd3 headerOneWords (descriptionBoost L pd3 headerOneWords
                      (titleBoost L pd3 headerOneWords
                         \<lparr>l_wordFrequencyList =
                            sortWordsByFrequency (vocabulary (doc_terms doc)) (data0 (doc_terms doc)),
                          l_pageScore = 0, l_pageAnalysis = [],
                          l_headerWordsInTitle = 0, l_headerWordsInDescription = 0,
                          l_headerWordsInKeywords = 0\<rparr>)))"
  defines "rest \<equiv> l_pageScore (headerOneTest pd3 (l4\<lparr>l_pageScore := 0\<rparr>))"
  defines "tail \<equiv> l_pageAnalysis (headerOneTest pd3 (l4\<lparr>l_pageAnalysis := []\<rparr>))"
  assumes "reachable L cfg st" and "(u, pd) \<in> set (pagesVisited st)"
  shows "(version pd = Some [] \<or> version pd = None \<and> \<not> truthyB (analyze pd)) \<and>
         (map_of (pagesVisited st) u = Some pd \<and> uri_href res = u \<and>
          statusCode pd = Some c \<and> c < 0 \<and> truthyB (analyze pd) \<and>
          res_statusCode res < 300 \<and> dollar res = Some doc \<longrightarrow>
            map_of (pagesVisited (snd (handleResponse L cfg' now res st))) u =
            Some (pd3\<lparr>pageScore :=
                        Some (l_pageScore l4 + (if truthy (doc_product doc) then - 1 else 0) + rest),
                      pageAnalysis :=
                        Some (l_pageAnalysis l4 @
                              (if truthy (doc_product doc)
                               then ''; bad: page has product but missing version.'' else []) @
                              tail),
                      wordFrequencyList := Some (l_wordFrequencyList l4),
                      terms := None,
                      completeTime := Some now\<rparr>))"
proof
  from reachable_version[OF assms(6,7)]
  show v: "version pd = Some [] \<or> version pd = None \<and> \<not> truthyB (analyze pd)" .
  show "map_of (pagesVisited st) u = Some pd \<and> uri_href res = u \<and>
          statusCode pd = Some c \<and> c < 0 \<and> truthyB (analyze pd) \<and>
          res_statusCode res < 300 \<and> dollar res = Some doc \<longrightarrow>
            map_of (pagesVisited (snd (handleResponse L cfg' now res st))) u =
            Some (pd3\<lparr>pageScore :=
                        Some (l_pageScore l4 + (if truthy (doc_product doc) then - 1 else 0) + rest),
                      pageAnalysis :=
                        Some (l_pageAnalysis l4 @
                              (if truthy (doc_product doc)
                               then ''; bad: page has product but missing version.'' else []) @
                              tail),
                      wordFrequencyList := Some (l_wordFrequencyList l4),
                      terms := None,
                      completeTime := Some now\<rparr>)"
  proof
    assume a: "map_of (pagesVisited st) u = Some pd \<and> uri_href res = u \<and>
          statusCode pd = Some c \<and> c < 0 \<and> truthyB (analyze pd) \<and>
          res_statusCode res < 300 \<and> dollar res = Some doc"
    have noversion: "\<not> truthy (version pd3)"
      using v unfolding pd3_def by (auto simp: extractMetadata_def)
    have prod: "product pd3 = doc_product doc"
      unfolding pd3_def by (simp add: extractMetadata_def)
    have an: "truthyB (analyze pd3)" and tm: "terms pd3 = Some (doc_terms doc)"
      using a unfolding pd3_def by (simp_all add: extractMetadata_def)
    let ?l6 = "headerOneTest pd3 (productVersion pd3 l4)"
    let ?pd4 = "pd3\<lparr>pageScore := Some (l_pageScore ?l6),
                    pageAnalysis := Some (l_pageAnalysis ?l6),
                    wordFrequencyList := Some (l_wordFrequencyList ?l6),
                    terms := None\<rparr>"
    have sc: "scorePage L now pd3 = Inr ?pd4"
      unfolding l4_def headerOneWords_def
      using scorePage_blocks[OF an tm, of L now] by (simp add: Let_def)
    have stored: "map_of (pagesVisited (snd (handleResponse L cfg' now res st))) u =
                    Some (?pd4\<lparr>completeTime := Some now\<rparr>)"
      using handleResponse_scores[of st res pd c doc L now ?pd4 cfg'] a sc
      unfolding pd3_def by simp
    have pv: "productVersion pd3 l4 =
                (if truthy (doc_product doc)
                 then l4\<lparr>l_pageScore := l_pageScore l4 - 1,
                         l_pageAnalysis := l_pageAnalysis l4 @
                           ''; bad: page has product but missing version.''\<rparr>
                 else l4)"
      using noversion by (simp add: productVersion_def prod)
    have score: "l_pageScore ?l6 =
                   l_pageScore l4 + (if truthy (doc_product doc) then - 1 else 0) + rest"
      unfolding pv rest_def by (simp add: headerOneTest_def)
    have analysis: "l_pageAnalysis ?l6 =
                   l_pageAnalysis l4 @
                   (if truthy (doc_product doc)
                    then ''; bad: page has product but missing version.'' else []) @ tail"
      unfolding pv tail_def by (simp add: headerOneTest_def)
    have wfl: "l_wordFrequencyList ?l6 = l_wordFrequencyList l4"
      unfolding pv by (simp add: headerOneTest_def)
    show "map_of (pagesVisited (snd (handleResponse L cfg' now res st))) u =
            Some (pd3\<lparr>pageScore :=
                        Some (l_pageScore l4 + (if truthy (doc_product doc) then - 1 else 0) + rest),
                      pageAnalysis :=
                        Some (l_pageAnalysis l4 @
                              (if truthy (doc_product doc)
                               then ''; bad: page has product but missing version.'' else []) @
                              tail),
                      wordFrequencyList := Some (l_wordFrequencyList l4),
                      terms := None,
                      completeTime := Some now\<rparr>)"
      unfolding stored by (simp add: score analysis wfl)
  qed
qed

theorem version_never_assigned_witness:
  "reachable sampleLib docsConfiguration (startCrawler sampleLib docsConfiguration 0) \<and>
   (''https://host/docs/index.html'', newPageDetails 0 ''https://host/docs/index.html'' True)
     \<in> set (pagesVisited (startCrawler sampleLib docsConfiguration 0)) \<and>
   version (newPageDetails 0 ''https://host/docs/index.html'' True) = Some [] \<and>
   map_of (pagesVisited (startCrawler sampleLib docsConfiguration 0))
     ''https://host/docs/index.html'' =
     Some (newPageDetails 0 ''https://host/docs/index.html'' True) \<and>
   truthy (doc_product productDocument) \<and>
   map_option (\<lambda>pd'. (pageScore pd', pageAnalysis pd'))
     (map_of (pagesVisited
        (snd (handleResponse sampleLib (startConfiguration sampleLib docsConfiguration) sampleNow
                (startPageResponse productDocument)
                (startCrawler sampleLib docsConfiguration 0))))
        ''https://host/docs/index.html'') =
     Some (Some (- 1),
           Some (''; very bad: no title.; very bad: no description.; very bad: no keywords.'' @
                 ''; good: page is recent.; bad: page has product but missing version.'' @
                 ''; bad: page missing H1.''))"
proof -
  let ?url = "''https://host/docs/index.html''"
  let ?pd = "newPageDetails 0 ?url True"
  let ?st = "startCrawler sampleLib docsConfiguration 0"
  have r: "reachable sampleLib docsConfiguration ?st"
    by (rule reachable.start)
  have st: "pagesVisited ?st = [(?url, ?pd)]"
    by (simp add: sample_defs crawler_defs Let_def)
  have m: "(?url, ?pd) \<in> set (pagesVisited ?st)"
    by (simp add: st)
  have h: "map_of (pagesVisited ?st) ?url = Some ?pd \<and>
           uri_href (startPageResponse productDocument) = ?url \<and>
           statusCode ?pd = Some (- 1) \<and> (- 1 :: int) < 0 \<and> truthyB (analyze ?pd) \<and>
           res_statusCode (startPageResponse productDocument) < 300 \<and>
           dollar (startPageResponse productDocument) = Some productDocument"
    by (simp add: st newPageDetails_def startPageResponse_def)
  note scored = version_never_assigned [OF r m, where res = "startPageResponse productDocument"
      and doc = productDocument and c = "- 1" and now = sampleNow
      and cfg' = "startConfiguration sampleLib docsConfiguration",
      THEN conjunct2, THEN mp, OF h]
  have v: "map_option (\<lambda>pd'. (pageScore pd', pageAnalysis pd'))
     (map_of (pagesVisited
        (snd (handleResponse sampleLib (startConfiguration sampleLib docsConfiguration) sampleNow
                (startPageResponse productDocument) ?st)))
        ?url) =
     Some (Some (- 1),
           Some (''; very bad: no title.; very bad: no description.; very bad: no keywords.'' @
                 ''; good: page is recent.; bad: page has product but missing version.'' @
                 ''; bad: page missing H1.''))"
    unfolding scored
    by (simp add: newPageDetails_def startPageResponse_def productDocument_def
        plainDocument_def extractMetadata_def sample_defs titleBoost_def descriptionBoost_def
        keywordBoost_def freshness_def oneYear_def headerOneTest_def sortWordsByFrequency_def)
  from r m h v show ?thesis
    by (simp add: newPageDetails_def productDocument_def)
qed

text \<open>
  Claim C9 as first stated fails in two places. After an answer that reports the URL
  \<open>https://host/docs/\<close>, which has no record, the map holds a record for it whose
  \<open>version\<close> is not the empty string but absent. And a page whose product meta tag has an
  empty content is scored without any product clause: its score is 0, as for the same
  page without the tag.
\<close>

theorem version_absent_counterexample:
  "reachable sampleLib docsConfiguration
     (snd (analyzePage sampleLib (startConfiguration sampleLib docsConfiguration) sampleNow
             (Some redirectedResponse) 1 (startCrawler sampleLib docsConfiguration 0))) \<and>
   map (\<lambda>(u, pd). (u, version pd))
     (pagesVisited
        (snd (analyzePage sampleLib (startConfiguration sampleLib docsConfiguration) sampleNow
                (Some redirectedResponse) 1 (startCrawler sampleLib docsConfiguration 0))))
     = [(''https://host/docs/index.html'', Some []), (''https://host/docs/'', None)] \<and>
   map (\<lambda>(u, pd). (u, product pd, pageScore pd, pageAnalysis pd))
     (pagesVisited
        (snd (analyzePage sampleLib (startConfiguration sampleLib docsConfiguration) sampleNow
                (Some (startPageResponse emptyProductDocument)) 1
                (startCrawler sampleLib docsConfiguration 0))))
     = [(''https://host/docs/index.html'', Some [], Some 0,
         Some (''; very bad: no title.; very bad: no description.; very bad: no keywords.'' @
               ''; good: page is recent.; bad: page missing H1.''))]"
proof (intro conjI)
  show "reachable sampleLib docsConfiguration
     (snd (analyzePage sampleLib (startConfiguration sampleLib docsConfiguration) sampleNow
             (Some redirectedResponse) 1 (startCrawler sampleLib docsConfiguration 0)))"
    by (rule reachable.completion[OF reachable.start])
qed (simp_all add: sample_defs plainDocument_def emptyProductDocument_def startPageResponse_def
      redirectedResponse_def crawler_defs scoring_defs Let_def)

end
